theory Spec2Isabelle
  imports Main "HOL-Library.Word"
begin

section \<open>The dataset model of dcmedit (src/models/Dataset\_model.cpp)\<close>

text \<open>
  \<open>Dataset_model\<close> presents the DICOM dataset of the current file as a Qt item model.
  The dataset is a tree of DCMTK objects. The embedding keeps the tree as a value, an
  object owning its children as a DCMTK container owns (and, when destroyed, releases)
  the objects in its list. A pointer to an object is the handle of the object: the
  positions of the children to follow from the dataset of the current file. A handle
  that leads nowhere is a dangling pointer, and reading through it is a memory fault.

  Calls of \<open>Log\<close> are left out: they write to a sink that no operation reads.
\<close>

subsection \<open>DCMTK objects\<close>

type_synonym DcmTagKey = "16 word \<times> 16 word"

datatype DcmEVR =
    EVR_item | EVR_dataset | EVR_SQ | EVR_pixelSQ | EVR_pixelItem
  | EVR_PN | EVR_LO | EVR_UI | EVR_DA | EVR_OB | EVR_UN

text \<open>
  An object: what \<open>ident()\<close> returns (it names the object's class), its tag, the bytes
  of its value, and the objects of its element list or item list in their order.
\<close>

datatype DcmObject =
  DcmObject (ident: DcmEVR) (getTag: DcmTagKey) (getValue: "8 word list")
    (children: "DcmObject list")

type_synonym handle = "nat list"

text \<open>
  The class hierarchy of DCMTK: \<open>DcmItem\<close> (and \<open>DcmDataset\<close>, which derives from it)
  and \<open>DcmElement\<close> both derive from \<open>DcmObject\<close>, and no class derives from both;
  \<open>DcmSequenceOfItems\<close> (and \<open>DcmPixelSequence\<close>, which derives from it) derives
  from \<open>DcmElement\<close>. Items and sequences are not leaves, every other element is.
\<close>

definition is_DcmItem :: "DcmObject \<Rightarrow> bool" where
  "is_DcmItem ob = (ident ob = EVR_item \<or> ident ob = EVR_dataset)"

definition is_DcmElement :: "DcmObject \<Rightarrow> bool" where
  "is_DcmElement ob = (\<not> is_DcmItem ob)"

definition is_DcmSequenceOfItems :: "DcmObject \<Rightarrow> bool" where
  "is_DcmSequenceOfItems ob = (ident ob = EVR_SQ \<or> ident ob = EVR_pixelSQ)"

definition isLeaf :: "DcmObject \<Rightarrow> bool" where
  "isLeaf ob = (\<not> is_DcmItem ob \<and> \<not> is_DcmSequenceOfItems ob)"

text \<open>\<open>dynamic_cast<DcmElement*>\<close> on a pointer that is null or points to a live object.\<close>

definition dynamic_cast_DcmElement :: "DcmObject option \<Rightarrow> DcmObject option" where
  "dynamic_cast_DcmElement p =
     (case p of None \<Rightarrow> None
      | Some ob \<Rightarrow> if is_DcmElement ob then Some ob else None)"

text \<open>
  The conversion of an \<open>unsigned long\<close> count to \<open>int\<close>, as in
  \<open>int total = object->getNumberOfValues()\<close>: the low 32 bits, read as two's complement.
\<close>

definition to_int :: "nat \<Rightarrow> int" where
  "to_int n = sint (word_of_nat n :: 32 word)"

text \<open>
  \<open>getNumberOfValues()\<close> of a container is the length of its list. The model calls it on
  containers only: \<open>rowCount\<close> returns before the call for a leaf, and \<open>index\<close> returns
  before the call when \<open>rowCount\<close> is 0.
\<close>

definition getNumberOfValues :: "DcmObject \<Rightarrow> nat" where
  "getNumberOfValues ob = length (children ob)"

text \<open>
  \<open>DcmItem::getElement(i)\<close> and \<open>DcmSequenceOfItems::getItem(i)\<close>: the object at
  position \<open>i\<close> of the list, null out of range. In a tree that DCMTK builds, the list of
  a dataset or an item holds elements and the list of a sequence holds items.
\<close>

definition getElement :: "DcmObject \<Rightarrow> int \<Rightarrow> DcmObject option" where
  "getElement ob i =
     (if 0 \<le> i \<and> nat i < length (children ob) then Some (children ob ! nat i) else None)"

definition getItem :: "DcmObject \<Rightarrow> int \<Rightarrow> DcmObject option" where
  "getItem ob i =
     (if 0 \<le> i \<and> nat i < length (children ob) then Some (children ob ! nat i) else None)"

subsection \<open>The edit policy\<close>

definition is_allowed_edit_tag :: "DcmObject option \<Rightarrow> bool" where
  "is_allowed_edit_tag element =
     (case element of
        None \<Rightarrow> False
      | Some e \<Rightarrow>
          (let key = getTag e in
           if key = (0x0010, 0x0010) then True
           else if key = (0x0010, 0x0020) then True
           else if key = (0x0020, 0x000D) then True
           else False))"

text \<open>The three tags of the policy, as the set that the spec names.\<close>

definition whitelist :: "DcmTagKey set" where
  "whitelist = {(0x0010, 0x0010), (0x0010, 0x0020), (0x0020, 0x000D)}"

subsection \<open>Addresses, notifications, errors\<close>

text \<open>
  A \<open>QModelIndex\<close> holds a row, a column and the internal pointer; \<open>QModelIndex()\<close> has
  row and column -1 and a null pointer, and an index is valid when neither is negative.
\<close>

datatype QModelIndex =
  QModelIndex (row: int) (column: int) (internalPointer: "handle option")

definition invalid_index :: QModelIndex where
  "invalid_index = QModelIndex (- 1) (- 1) None"

definition isValid :: "QModelIndex \<Rightarrow> bool" where
  "isValid idx = (0 \<le> row idx \<and> 0 \<le> column idx)"

definition createIndex :: "int \<Rightarrow> int \<Rightarrow> handle option \<Rightarrow> QModelIndex" where
  "createIndex r c p = QModelIndex r c p"

text \<open>
  What the model calls on its collaborators, in program order: the signals of the Qt
  model, the \<open>dataset_changed\<close> event, and the calls that change the DCMTK tree.
\<close>

datatype event =
    beginInsertRows QModelIndex int int
  | endInsertRows
  | beginRemoveRows QModelIndex int int
  | endRemoveRows
  | dataChanged QModelIndex QModelIndex
  | dataset_changed
  | codec_putString handle string
  | codec_createValueFromTempFile handle
  | codec_append handle
  | codec_remove handle int
  | codec_delete handle

text \<open>
  \<open>Runtime_error\<close> is \<open>std::runtime_error\<close> with its message; \<open>Unexpected_VR vr\<close> is the
  runtime error whose message is "Unexpected VR: " followed by the number of \<open>vr\<close>;
  \<open>Memory_fault\<close> is a read through a null or dangling pointer.
\<close>

datatype error = Runtime_error string | Unexpected_VR DcmEVR | Memory_fault

datatype OFCondition = OFCondition (good: bool) (text_of: string)

definition bad :: "OFCondition \<Rightarrow> bool" where
  "bad status = (\<not> good status)"

datatype ItemFlag = ItemIsEnabled | ItemIsSelectable | ItemIsEditable

datatype ItemDataRole = DisplayRole | EditRole | ForegroundRole

subsection \<open>The state of the model\<close>

record Dicom_file =
  dataset :: DcmObject
  unsaved_changes :: bool

record Dataset_model =
  current_file :: "Dicom_file option"
  events :: "event list"

definition emit :: "event \<Rightarrow> Dataset_model \<Rightarrow> Dataset_model" where
  "emit e m = m\<lparr>events := events m @ [e]\<rparr>"

fun subobject :: "DcmObject \<Rightarrow> handle \<Rightarrow> DcmObject option" where
  "subobject ob [] = Some ob"
| "subobject ob (i # p) =
     (if i < length (children ob) then subobject (children ob ! i) p else None)"

text \<open>Reading through a pointer: \<open>None\<close> when it is dangling.\<close>

definition deref :: "Dataset_model \<Rightarrow> handle \<Rightarrow> DcmObject option" where
  "deref m p =
     (case current_file m of None \<Rightarrow> None | Some file \<Rightarrow> subobject (dataset file) p)"

fun update_at :: "handle \<Rightarrow> (DcmObject \<Rightarrow> DcmObject) \<Rightarrow> DcmObject \<Rightarrow> DcmObject" where
  "update_at [] f ob = f ob"
| "update_at (i # p) f ob =
     DcmObject (ident ob) (getTag ob) (getValue ob)
       ((children ob)[i := update_at p f (children ob ! i)])"

text \<open>Writing through a pointer to a live object.\<close>

definition modify_object ::
  "handle \<Rightarrow> (DcmObject \<Rightarrow> DcmObject) \<Rightarrow> Dataset_model \<Rightarrow> Dataset_model" where
  "modify_object p f m =
     m\<lparr>current_file :=
         map_option (\<lambda>file. file\<lparr>dataset := update_at p f (dataset file)\<rparr>) (current_file m)\<rparr>"

definition get_dataset :: "Dataset_model \<Rightarrow> handle option" where
  "get_dataset m = (case current_file m of Some file \<Rightarrow> Some [] | None \<Rightarrow> None)"

definition get_object :: "Dataset_model \<Rightarrow> QModelIndex \<Rightarrow> handle option" where
  "get_object m idx = (if \<not> isValid idx then get_dataset m else internalPointer idx)"

text \<open>
  \<open>dynamic_cast<DcmElement*>(get_object(index))\<close> and the same for
  \<open>DcmSequenceOfItems\<close>: the pointer with the object it points to, or null.
\<close>

definition element_at ::
  "Dataset_model \<Rightarrow> QModelIndex \<Rightarrow> error + (handle \<times> DcmObject) option" where
  "element_at m idx =
     (case get_object m idx of
        None \<Rightarrow> Inr None
      | Some p \<Rightarrow>
          (case deref m p of
             None \<Rightarrow> Inl Memory_fault
           | Some ob \<Rightarrow> Inr (if is_DcmElement ob then Some (p, ob) else None)))"

definition sequence_at ::
  "Dataset_model \<Rightarrow> QModelIndex \<Rightarrow> error + (handle \<times> DcmObject) option" where
  "sequence_at m idx =
     (case get_object m idx of
        None \<Rightarrow> Inr None
      | Some p \<Rightarrow>
          (case deref m p of
             None \<Rightarrow> Inl Memory_fault
           | Some ob \<Rightarrow> Inr (if is_DcmSequenceOfItems ob then Some (p, ob) else None)))"

definition mark_as_modified :: "Dataset_model \<Rightarrow> error + Dataset_model" where
  "mark_as_modified m =
     (case current_file m of
        None \<Rightarrow> Inl Memory_fault
      | Some file \<Rightarrow>
          Inr (emit dataset_changed
                 (m\<lparr>current_file := Some (file\<lparr>unsaved_changes := True\<rparr>)\<rparr>)))"

subsection \<open>The tree projection\<close>

text \<open>
  The child that the loops of \<open>rowCount\<close> and \<open>index\<close> fetch at position \<open>i\<close>: an
  element of a dataset or an item, an item of a sequence, null under any other parent.
  Both loops then cast the child to \<open>DcmElement\<close> and ask the edit policy.
\<close>

definition loop_child :: "DcmObject \<Rightarrow> int \<Rightarrow> DcmObject option" where
  "loop_child object i =
     (if ident object = EVR_item \<or> ident object = EVR_dataset then getElement object i
      else if ident object = EVR_SQ then getItem object i
      else None)"

function rowCount_loop :: "DcmObject \<Rightarrow> int \<Rightarrow> int \<Rightarrow> int \<Rightarrow> int" where
  "rowCount_loop object tot i count =
     (if i < tot then
        (let child = loop_child object i;
             elem = dynamic_cast_DcmElement child
         in rowCount_loop object tot (i + 1)
              (if elem \<noteq> None \<and> is_allowed_edit_tag elem then count + 1 else count))
      else count)"
  by pat_completeness auto
termination
  by (relation "measure (\<lambda>(object, tot, i, count). nat (tot - i))") auto

declare rowCount_loop.simps [simp del]

definition rowCount :: "Dataset_model \<Rightarrow> QModelIndex \<Rightarrow> error + int" where
  "rowCount m par =
     (case get_object m par of
        None \<Rightarrow> Inr 0
      | Some p \<Rightarrow>
          (case deref m p of
             None \<Rightarrow> Inl Memory_fault
           | Some object \<Rightarrow>
               if isLeaf object then Inr 0
               else Inr (rowCount_loop object (to_int (getNumberOfValues object)) 0 0)))"

definition columnCount :: int where
  "columnCount = 4"

text \<open>\<open>QAbstractItemModel::hasIndex\<close>, as Qt defines it.\<close>

definition hasIndex :: "Dataset_model \<Rightarrow> int \<Rightarrow> int \<Rightarrow> QModelIndex \<Rightarrow> error + bool" where
  "hasIndex m r c par =
     (if r < 0 \<or> c < 0 then Inr False
      else (case rowCount m par of
              Inl e \<Rightarrow> Inl e
            | Inr n \<Rightarrow> Inr (r < n \<and> c < columnCount)))"

function index_loop ::
  "DcmObject \<Rightarrow> handle \<Rightarrow> int \<Rightarrow> int \<Rightarrow> int \<Rightarrow> int \<Rightarrow> int \<Rightarrow> QModelIndex" where
  "index_loop parentObj p r c tot i visibleIndex =
     (if i < tot then
        (let child = loop_child parentObj i;
             elem = dynamic_cast_DcmElement child
         in if elem \<noteq> None \<and> is_allowed_edit_tag elem then
              (if visibleIndex + 1 = r then createIndex r c (Some (p @ [nat i]))
               else index_loop parentObj p r c tot (i + 1) (visibleIndex + 1))
            else index_loop parentObj p r c tot (i + 1) visibleIndex)
      else invalid_index)"
  by pat_completeness auto
termination
  by (relation "measure (\<lambda>(parentObj, p, r, c, tot, i, visibleIndex). nat (tot - i))") auto

declare index_loop.simps [simp del]

definition index ::
  "Dataset_model \<Rightarrow> int \<Rightarrow> int \<Rightarrow> QModelIndex \<Rightarrow> error + QModelIndex" where
  "index m r c par =
     (case hasIndex m r c par of
        Inl e \<Rightarrow> Inl e
      | Inr False \<Rightarrow> Inr invalid_index
      | Inr True \<Rightarrow>
          (case get_object m par of
             None \<Rightarrow> Inr invalid_index
           | Some p \<Rightarrow>
               (case deref m p of
                  None \<Rightarrow> Inl Memory_fault
                | Some parentObj \<Rightarrow>
                    Inr (index_loop parentObj p r c
                           (to_int (getNumberOfValues parentObj)) 0 (- 1)))))"

definition getParent :: "handle \<Rightarrow> handle option" where
  "getParent p = (if p = [] then None else Some (butlast p))"

text \<open>
  \<open>Dicom_util::get_index_nr\<close> is not among the sources: the row it returns for the
  parent object is a parameter of \<open>parent\<close> and of what calls it.
\<close>

definition parent ::
  "(Dataset_model \<Rightarrow> handle \<Rightarrow> int) \<Rightarrow> Dataset_model \<Rightarrow> QModelIndex \<Rightarrow> error + QModelIndex" where
  "parent get_index_nr m idx =
     (if \<not> isValid idx then Inr invalid_index
      else (case get_object m idx of
              None \<Rightarrow> Inr invalid_index
            | Some p \<Rightarrow>
                (case deref m p of
                   None \<Rightarrow> Inl Memory_fault
                 | Some object \<Rightarrow>
                     (case getParent p of
                        None \<Rightarrow> Inr invalid_index
                      | Some pp \<Rightarrow>
                          if Some pp = get_dataset m then Inr invalid_index
                          else Inr (createIndex (get_index_nr m pp) 0 (Some pp))))))"

definition flags :: "Dataset_model \<Rightarrow> QModelIndex \<Rightarrow> error + ItemFlag set" where
  "flags m idx =
     (if \<not> isValid idx then Inr {}
      else (case element_at m idx of
              Inl e \<Rightarrow> Inl e
            | Inr element \<Rightarrow>
                if element \<noteq> None \<and> column idx = 3
                   \<and> is_allowed_edit_tag (map_option snd element)
                then Inr {ItemIsEnabled, ItemIsSelectable, ItemIsEditable}
                else Inr {ItemIsEnabled, ItemIsSelectable}))"

subsection \<open>The mutation engine\<close>

text \<open>
  What DCMTK answers to \<open>putString\<close>, \<open>createValueFromTempFile\<close> and \<open>append\<close> (the
  status, and the object after the call) is a parameter of the operation that calls it:
  the operations below are what \<open>Dataset_model\<close> does around these calls.
\<close>

definition new_DcmItem :: DcmObject where
  "new_DcmItem = DcmObject EVR_item (0xFFFE, 0xE000) [] []"

definition add_item ::
  "(DcmObject \<Rightarrow> DcmObject \<Rightarrow> OFCondition \<times> DcmObject)
     \<Rightarrow> Dataset_model \<Rightarrow> QModelIndex \<Rightarrow> (error + unit) \<times> Dataset_model" where
  "add_item append_item m idx =
     (case sequence_at m idx of
        Inl e \<Rightarrow> (Inl e, m)
      | Inr None \<Rightarrow> (Inl (Runtime_error ''failed to get sequence''), m)
      | Inr (Some (p, sq)) \<Rightarrow>
          (case rowCount m idx of
             Inl e \<Rightarrow> (Inl e, m)
           | Inr item_pos \<Rightarrow>
               (let m1 = emit (beginInsertRows idx item_pos item_pos) m;
                    (status, sq') = append_item sq new_DcmItem;
                    m2 = emit (codec_append p) (modify_object p (\<lambda>_. sq') m1);
                    m3 = emit endInsertRows m2
                in case mark_as_modified m3 of
                     Inl e \<Rightarrow> (Inl e, m3)
                   | Inr m4 \<Rightarrow>
                       if bad status then (Inl (Runtime_error (text_of status)), m4)
                       else (Inr (), m4))))"

text \<open>
  \<open>DcmItem::remove(num)\<close> and \<open>DcmSequenceOfItems::remove(num)\<close> take the object at
  position \<open>num\<close> out of the list and return it, or return null when there is none
  (\<open>num\<close> is an \<open>unsigned long\<close>: a negative \<open>int\<close> becomes a position beyond
  every list).
\<close>

definition remove_child :: "DcmObject \<Rightarrow> int \<Rightarrow> DcmObject option \<times> DcmObject" where
  "remove_child ob num =
     (if 0 \<le> num \<and> nat num < length (children ob)
      then (Some (children ob ! nat num),
            DcmObject (ident ob) (getTag ob) (getValue ob)
              (take (nat num) (children ob) @ drop (Suc (nat num)) (children ob)))
      else (None, ob))"

text \<open>The removal followed by \<open>delete\<close> of what it returned (nothing to do for null).\<close>

definition remove_and_delete ::
  "handle \<Rightarrow> DcmObject \<Rightarrow> int \<Rightarrow> Dataset_model \<Rightarrow> Dataset_model" where
  "remove_and_delete p container r m =
     (let (removed, container') = remove_child container r;
          m1 = emit (codec_remove p r) (modify_object p (\<lambda>_. container') m)
      in case removed of
           None \<Rightarrow> m1
         | Some ob \<Rightarrow> emit (codec_delete (p @ [nat r])) m1)"

definition delete_index ::
  "(Dataset_model \<Rightarrow> handle \<Rightarrow> int)
     \<Rightarrow> Dataset_model \<Rightarrow> QModelIndex \<Rightarrow> (error + unit) \<times> Dataset_model" where
  "delete_index get_index_nr m idx =
     (if \<not> isValid idx then (Inl (Runtime_error ''invalid index''), m)
      else
        (case parent get_index_nr m idx of
           Inl e \<Rightarrow> (Inl e, m)
         | Inr parent_idx \<Rightarrow>
             (case get_object m parent_idx of
                None \<Rightarrow> (Inl (Runtime_error ''failed to get parent''), m)
              | Some pp \<Rightarrow>
                  (case deref m pp of
                     None \<Rightarrow> (Inl Memory_fault, m)
                   | Some parent_obj \<Rightarrow>
                       (let vr = ident parent_obj;
                            r = row idx;
                            m1 = emit (beginRemoveRows parent_idx r r) m;
                            (bad_vr, m2) =
                              (if vr = EVR_item \<or> vr = EVR_dataset
                               then (False, remove_and_delete pp parent_obj r m1)
                               else if vr = EVR_SQ
                               then (False, remove_and_delete pp parent_obj r m1)
                               else (True, m1));
                            m3 = emit endRemoveRows m2
                        in case mark_as_modified m3 of
                             Inl e \<Rightarrow> (Inl e, m3)
                           | Inr m4 \<Rightarrow>
                               if bad_vr then (Inl (Unexpected_VR vr), m4)
                               else (Inr (), m4))))))"

definition set_value ::
  "(DcmObject \<Rightarrow> string \<Rightarrow> OFCondition \<times> DcmObject)
     \<Rightarrow> Dataset_model \<Rightarrow> QModelIndex \<Rightarrow> string \<Rightarrow> (error + unit) \<times> Dataset_model" where
  "set_value putString m idx v =
     (case element_at m idx of
        Inl e \<Rightarrow> (Inl e, m)
      | Inr None \<Rightarrow> (Inl (Runtime_error ''failed to get element''), m)
      | Inr (Some (p, element)) \<Rightarrow>
          if \<not> is_allowed_edit_tag (Some element) then (Inr (), m)
          else
            (let (status, element') = putString element v;
                 m1 = emit (codec_putString p v) (modify_object p (\<lambda>_. element') m);
                 m2 = emit (dataChanged idx idx) m1
             in case mark_as_modified m2 of
                  Inl e \<Rightarrow> (Inl e, m2)
                | Inr m3 \<Rightarrow>
                    if bad status then (Inl (Runtime_error (text_of status)), m3)
                    else (Inr (), m3)))"

text \<open>
  \<open>OFStandard::getFileSize\<close> returns a \<open>size_t\<close>, 0 for a file that is not there; the
  disk is a map from paths to the bytes of the files.
\<close>

definition getFileSize :: "(string \<Rightarrow> 8 word list option) \<Rightarrow> string \<Rightarrow> 64 word" where
  "getFileSize disk path =
     (case disk path of None \<Rightarrow> 0 | Some bytes \<Rightarrow> word_of_nat (length bytes))"

definition set_value_from_file ::
  "(DcmObject \<Rightarrow> 8 word list option \<Rightarrow> 32 word \<Rightarrow> OFCondition \<times> DcmObject)
     \<Rightarrow> (string \<Rightarrow> 8 word list option)
     \<Rightarrow> Dataset_model \<Rightarrow> QModelIndex \<Rightarrow> string \<Rightarrow> (error + unit) \<times> Dataset_model" where
  "set_value_from_file createValueFromTempFile disk m idx file_path =
     (case element_at m idx of
        Inl e \<Rightarrow> (Inl e, m)
      | Inr None \<Rightarrow> (Inl (Runtime_error ''failed to get element''), m)
      | Inr (Some (p, element)) \<Rightarrow>
          if \<not> is_allowed_edit_tag (Some element) then (Inr (), m)
          else
            (let file_stream = disk file_path;
                 file_size = (ucast (getFileSize disk file_path) :: 32 word)
             in if file_size mod 2 \<noteq> 0
                then (Inl (Runtime_error ''file size must be even''), m)
                else
                  (let (status, element') =
                         createValueFromTempFile element file_stream file_size;
                       m1 = emit (codec_createValueFromTempFile p)
                              (modify_object p (\<lambda>_. element') m);
                       m2 = emit (dataChanged idx idx) m1
                   in case mark_as_modified m2 of
                        Inl e \<Rightarrow> (Inl e, m2)
                      | Inr m3 \<Rightarrow>
                          if bad status then (Inl (Runtime_error (text_of status)), m3)
                          else (Inr (), m3))))"

text \<open>
  \<open>setData\<close> catches every exception of \<open>set_value\<close> and answers false; a memory fault
  is not an exception and is not caught.
\<close>

definition setData ::
  "(DcmObject \<Rightarrow> string \<Rightarrow> OFCondition \<times> DcmObject)
     \<Rightarrow> Dataset_model \<Rightarrow> QModelIndex \<Rightarrow> string \<Rightarrow> ItemDataRole
     \<Rightarrow> (error + bool) \<times> Dataset_model" where
  "setData putString m idx v role =
     (if \<not> isValid idx then (Inr False, m)
      else if role \<noteq> EditRole then (Inr False, m)
      else
        (case element_at m idx of
           Inl e \<Rightarrow> (Inl e, m)
         | Inr None \<Rightarrow> (Inr False, m)
         | Inr (Some (p, element)) \<Rightarrow>
             if \<not> is_allowed_edit_tag (Some element) then (Inr False, m)
             else
               (case set_value putString m idx v of
                  (Inr u, m') \<Rightarrow> (Inr True, emit (dataChanged idx idx) m')
                | (Inl Memory_fault, m') \<Rightarrow> (Inl Memory_fault, m')
                | (Inl e, m') \<Rightarrow> (Inr False, m'))))"

subsection \<open>DCMTK's append, and the bracket discipline in the spec's words\<close>

text \<open>
  \<open>DcmSequenceOfItems::append\<close> on a non-null item puts it at the end of the item list
  and reports \<open>EC_Normal\<close>.
\<close>

definition DcmSequenceOfItems_append :: "DcmObject \<Rightarrow> DcmObject \<Rightarrow> OFCondition \<times> DcmObject" where
  "DcmSequenceOfItems_append sq item =
     (OFCondition True ''Normal'',
      DcmObject (ident sq) (getTag sq) (getValue sq) (children sq @ [item]))"

text \<open>
  The spec's ordering rule, read off a sequence of calls: a begin notification opens a
  bracket only when none is open, the matching end notification closes it, a call that
  changes the shape of the tree (append, remove, delete) happens only inside an open
  bracket, and no bracket is left open. The first argument is the open bracket, if any.
\<close>

datatype bracket = Inserting | Removing

fun bracketed :: "bracket option \<Rightarrow> event list \<Rightarrow> bool" where
  "bracketed b [] = (b = None)"
| "bracketed b (beginInsertRows par r1 r2 # es) = (b = None \<and> bracketed (Some Inserting) es)"
| "bracketed b (endInsertRows # es) = (b = Some Inserting \<and> bracketed None es)"
| "bracketed b (beginRemoveRows par r1 r2 # es) = (b = None \<and> bracketed (Some Removing) es)"
| "bracketed b (endRemoveRows # es) = (b = Some Removing \<and> bracketed None es)"
| "bracketed b (codec_append p # es) = (b = Some Inserting \<and> bracketed b es)"
| "bracketed b (codec_remove p n # es) = (b = Some Removing \<and> bracketed b es)"
| "bracketed b (codec_delete p # es) = (b = Some Removing \<and> bracketed b es)"
| "bracketed b (e # es) = bracketed b es"

subsection \<open>Example datasets\<close>

text \<open>
  The dataset of the spec's scenario: the leaves (0010,0010), (0008,0020), (0010,0020)
  in this order, with any values, in a file that is the current one.
\<close>

definition scenario_dataset :: "8 word list \<Rightarrow> 8 word list \<Rightarrow> 8 word list \<Rightarrow> DcmObject" where
  "scenario_dataset v1 v2 v3 =
     DcmObject EVR_dataset (0xFFFE, 0xE000) []
       [DcmObject EVR_PN (0x0010, 0x0010) v1 [],
        DcmObject EVR_DA (0x0008, 0x0020) v2 [],
        DcmObject EVR_LO (0x0010, 0x0020) v3 []]"

definition scenario_model ::
  "8 word list \<Rightarrow> 8 word list \<Rightarrow> 8 word list \<Rightarrow> bool \<Rightarrow> event list \<Rightarrow> Dataset_model" where
  "scenario_model v1 v2 v3 u es =
     \<lparr>current_file = Some \<lparr>dataset = scenario_dataset v1 v2 v3, unsaved_changes = u\<rparr>,
      events = es\<rparr>"

text \<open>
  A dataset whose only element is the sequence (0008,1140) holding one empty item; the
  address of the sequence is row 0 with the pointer to it.
\<close>

definition referenced_sequence :: DcmObject where
  "referenced_sequence = DcmObject EVR_SQ (0x0008, 0x1140) [] [new_DcmItem]"

definition sequence_model :: Dataset_model where
  "sequence_model =
     \<lparr>current_file =
        Some \<lparr>dataset = DcmObject EVR_dataset (0xFFFE, 0xE000) [] [referenced_sequence],
              unsaved_changes = False\<rparr>,
      events = []\<rparr>"

definition sequence_address :: QModelIndex where
  "sequence_address = QModelIndex 0 0 (Some [0])"

text \<open>A child that \<open>rowCount\<close> counts and \<open>index\<close> numbers: an element whose tag is allowed.\<close>

definition visible :: "DcmObject \<Rightarrow> bool" where
  "visible ob = (is_DcmElement ob \<and> is_allowed_edit_tag (Some ob))"

text \<open>The scenario with the values "A", "20240101" and "B", saved, with nothing emitted yet.\<close>

definition example_model :: Dataset_model where
  "example_model =
     scenario_model [0x41, 0x20] [0x32, 0x30, 0x32, 0x34, 0x30, 0x31, 0x30, 0x31] [0x42, 0x20]
       False []"

text \<open>
  A dataset whose only element is a pixel sequence with one pixel item: a parent that is
  neither a dataset, an item nor a sequence of kind \<open>EVR_SQ\<close>.
\<close>

definition pixel_sequence :: DcmObject where
  "pixel_sequence =
     DcmObject EVR_pixelSQ (0x7FE0, 0x0010) [] [DcmObject EVR_pixelItem (0xFFFE, 0xE000) [] []]"

definition pixel_model :: Dataset_model where
  "pixel_model =
     \<lparr>current_file =
        Some \<lparr>dataset = DcmObject EVR_dataset (0xFFFE, 0xE000) [] [pixel_sequence],
              unsaved_changes = False\<rparr>,
      events = []\<rparr>"

text \<open>
  Sample answers of the collaborators: a row number for a parent object (its position),
  a \<open>putString\<close> and a \<open>createValueFromTempFile\<close> that accept, an \<open>append\<close> that
  refuses, and a disk with one file of three bytes.
\<close>

definition last_position :: "Dataset_model \<Rightarrow> handle \<Rightarrow> int" where
  "last_position m p = (if p = [] then 0 else int (last p))"

definition accepting_putString :: "DcmObject \<Rightarrow> string \<Rightarrow> OFCondition \<times> DcmObject" where
  "accepting_putString e v =
     (OFCondition True ''Normal'',
      DcmObject (ident e) (getTag e) (map (\<lambda>c. word_of_nat (of_char c)) v) (children e))"

definition accepting_createValue ::
  "DcmObject \<Rightarrow> 8 word list option \<Rightarrow> 32 word \<Rightarrow> OFCondition \<times> DcmObject" where
  "accepting_createValue e stream n =
     (OFCondition True ''Normal'',
      DcmObject (ident e) (getTag e) (case stream of None \<Rightarrow> [] | Some bytes \<Rightarrow> bytes)
        (children e))"

definition refusing_append :: "DcmObject \<Rightarrow> DcmObject \<Rightarrow> OFCondition \<times> DcmObject" where
  "refusing_append sq item = (OFCondition False ''Illegal call'', sq)"

definition example_disk :: "string \<Rightarrow> 8 word list option" where
  "example_disk path = (if path = ''odd.bin'' then Some [1, 2, 3] else None)"

section \<open>Theorems\<close>

subsection \<open>The loops of the projection\<close>

lemma to_int_small: "n < 2 ^ 31 \<Longrightarrow> to_int n = int n"
  unfolding to_int_def
  by (simp add: signed_of_nat signed_take_bit_int_eq_self)

lemma loop_child_nth:
  "ident object \<in> {EVR_item, EVR_dataset, EVR_SQ} \<Longrightarrow> 0 \<le> i
    \<Longrightarrow> nat i < length (children object)
    \<Longrightarrow> loop_child object i = Some (children object ! nat i)"
  by (auto simp: loop_child_def getElement_def getItem_def)

lemma cast_visible:
  "(dynamic_cast_DcmElement (Some ob) \<noteq> None
     \<and> is_allowed_edit_tag (dynamic_cast_DcmElement (Some ob))) = visible ob"
  by (simp add: dynamic_cast_DcmElement_def visible_def)

text \<open>
  From position \<open>i\<close> on, the loop of \<open>rowCount\<close> adds to the count the number of visible
  children that are left.
\<close>

lemma rowCount_loop_filter:
  "ident object \<in> {EVR_item, EVR_dataset, EVR_SQ} \<Longrightarrow> 0 \<le> i
    \<Longrightarrow> tot = int (length (children object))
    \<Longrightarrow> rowCount_loop object tot i count
        = count + int (length (filter visible (drop (nat i) (children object))))"
proof (induction object tot i count rule: rowCount_loop.induct)
  case (1 object tot i count)
  show ?case
  proof (cases "i < tot")
    case False
    then have "rowCount_loop object tot i count = count"
      by (subst rowCount_loop.simps) simp
    moreover have "drop (nat i) (children object) = []"
      using False 1(3,4) by simp
    ultimately show ?thesis by simp
  next
    case True
    have lt: "nat i < length (children object)"
      using True 1(3,4) by simp
    have ch: "loop_child object i = Some (children object ! nat i)"
      using loop_child_nth[OF 1(2) 1(3) lt] .
    have dr: "drop (nat i) (children object)
        = children object ! nat i # drop (nat (i + 1)) (children object)"
      using lt 1(3) by (simp add: Cons_nth_drop_Suc nat_add_distrib)
    let ?c' = "if visible (children object ! nat i) then count + 1 else count"
    have step: "rowCount_loop object tot i count = rowCount_loop object tot (i + 1) ?c'"
      by (subst rowCount_loop.simps) (simp only: True if_True Let_def ch cast_visible)
    have ih: "rowCount_loop object tot (i + 1) ?c'
        = ?c' + int (length (filter visible (drop (nat (i + 1)) (children object))))"
      using 1(1)[OF True refl refl 1(2) _ 1(4)] 1(3)
      by (simp only: ch cast_visible)
    show ?thesis unfolding step ih by (subst dr) simp
  qed
qed

text \<open>
  The part of C1 that the code keeps: under a dataset or an item (with fewer than
  \<open>2 ^ 31\<close> elements, so that the count fits the \<open>int\<close> it is stored in), \<open>rowCount\<close> is
  the number of elements that pass the edit policy.
\<close>

lemma rowCount_dataset_or_item:
  assumes "get_object m par = Some p" and "deref m p = Some object"
    and "ident object = EVR_item \<or> ident object = EVR_dataset"
    and "length (children object) < 2 ^ 31"
  shows "rowCount m par = Inr (int (length (filter visible (children object))))"
proof -
  have "\<not> isLeaf object"
    using assms(3) by (auto simp: isLeaf_def is_DcmItem_def)
  moreover have "rowCount_loop object (to_int (getNumberOfValues object)) 0 0
      = int (length (filter visible (children object)))"
    using assms(3) rowCount_loop_filter[of object 0 "int (length (children object))" 0]
    by (auto simp: getNumberOfValues_def to_int_small[OF assms(4)])
  ultimately show ?thesis
    using assms(1,2) by (simp add: rowCount_def)
qed

text \<open>
  Under a sequence the children are items, no item is an element, and the loop counts
  none of them.
\<close>

lemma rowCount_sequence_of_items:
  assumes "get_object m par = Some p" and "deref m p = Some object"
    and "ident object = EVR_SQ" and "list_all is_DcmItem (children object)"
    and "length (children object) < 2 ^ 31"
  shows "rowCount m par = Inr 0"
proof -
  have "\<not> isLeaf object"
    using assms(3) by (simp add: isLeaf_def is_DcmSequenceOfItems_def)
  moreover have "filter visible (children object) = []"
    using assms(4) by (auto simp: filter_empty_conv list_all_iff visible_def is_DcmElement_def)
  then have "rowCount_loop object (to_int (getNumberOfValues object)) 0 0 = 0"
    using assms(3) rowCount_loop_filter[of object 0 "int (length (children object))" 0]
    by (simp add: getNumberOfValues_def to_int_small[OF assms(5)])
  ultimately show ?thesis
    using assms(1,2) by (simp add: rowCount_def)
qed

lemma rowCount_live:
  "get_object m idx = Some p \<Longrightarrow> deref m p = Some ob \<Longrightarrow> \<exists>n. rowCount m idx = Inr n"
  by (simp add: rowCount_def)

lemma index_out_of_range:
  "rowCount m par = Inr n \<Longrightarrow> r < 0 \<or> n \<le> r \<or> c < 0 \<or> columnCount \<le> c
    \<Longrightarrow> index m r c par = Inr invalid_index"
  by (auto simp: index_def hasIndex_def)

lemma index_null_parent:
  "isValid par \<Longrightarrow> internalPointer par = None \<Longrightarrow> index m r c par = Inr invalid_index"
  by (auto simp: index_def hasIndex_def rowCount_def get_object_def)

subsection \<open>Reading and writing the state\<close>

lemma events_emit [simp]: "events (emit e m) = events m @ [e]"
  by (simp add: emit_def)

lemma current_file_emit [simp]: "current_file (emit e m) = current_file m"
  by (simp add: emit_def)

lemma events_modify_object [simp]: "events (modify_object p f m) = events m"
  by (simp add: modify_object_def)

lemma current_file_modify_object [simp]:
  "current_file (modify_object p f m)
     = map_option (\<lambda>file. file\<lparr>dataset := update_at p f (dataset file)\<rparr>) (current_file m)"
  by (simp add: modify_object_def)

lemma deref_current_file: "deref m p = Some ob \<Longrightarrow> \<exists>file. current_file m = Some file"
  by (cases "current_file m") (simp_all add: deref_def)

lemma element_at_element:
  "get_object m idx = Some p \<Longrightarrow> deref m p = Some e \<Longrightarrow> is_DcmElement e
    \<Longrightarrow> element_at m idx = Inr (Some (p, e))"
  by (simp add: element_at_def)

lemma sequence_at_sequence:
  "get_object m idx = Some p \<Longrightarrow> deref m p = Some sq \<Longrightarrow> is_DcmSequenceOfItems sq
    \<Longrightarrow> sequence_at m idx = Inr (Some (p, sq))"
  by (simp add: sequence_at_def)

lemma leaf_is_element: "isLeaf ob \<Longrightarrow> is_DcmElement ob"
  by (simp add: isLeaf_def is_DcmElement_def)

lemma allowed_iff_whitelist: "is_allowed_edit_tag (Some e) = (getTag e \<in> whitelist)"
  by (auto simp: is_allowed_edit_tag_def whitelist_def)

lemma dirty_iff:
  "(\<exists>fl. current_file m = Some fl \<and> unsaved_changes fl)
     = (map_option unsaved_changes (current_file m) = Some True)"
  by (cases "current_file m") auto

lemma get_object_same_file:
  "current_file m = Some fl \<Longrightarrow> current_file m' = Some fl'
    \<Longrightarrow> get_object m' idx = get_object m idx"
  by (simp add: get_object_def get_dataset_def)

text \<open>\<open>rowCount\<close> reads the dataset of the current file and nothing else of the state.\<close>

lemma rowCount_dataset_cong:
  assumes "map_option dataset (current_file m') = map_option dataset (current_file m)"
  shows "rowCount m' idx = rowCount m idx"
proof -
  have d: "deref m' = deref m"
    using assms
    by (cases "current_file m"; cases "current_file m'") (auto simp: deref_def fun_eq_iff)
  have g: "get_object m' idx = get_object m idx"
    using assms
    by (cases "current_file m"; cases "current_file m'")
      (auto simp: get_object_def get_dataset_def)
  show ?thesis by (simp only: rowCount_def d g)
qed

subsection \<open>The example datasets\<close>

lemmas eval_defs = Let_def loop_child_def getElement_def getItem_def
  dynamic_cast_DcmElement_def is_DcmElement_def is_DcmItem_def is_allowed_edit_tag_def

lemma example_deref:
  "deref example_model []
     = Some (scenario_dataset [0x41, 0x20] [0x32, 0x30, 0x32, 0x34, 0x30, 0x31, 0x30, 0x31]
               [0x42, 0x20])"
  "deref example_model [0] = Some (DcmObject EVR_PN (0x0010, 0x0010) [0x41, 0x20] [])"
  "deref example_model [1]
     = Some (DcmObject EVR_DA (0x0008, 0x0020)
               [0x32, 0x30, 0x32, 0x34, 0x30, 0x31, 0x30, 0x31] [])"
  "deref example_model [2] = Some (DcmObject EVR_LO (0x0010, 0x0020) [0x42, 0x20] [])"
  by (simp_all add: deref_def example_model_def scenario_model_def scenario_dataset_def)

lemma example_get_object:
  "get_object example_model invalid_index = Some []"
  "0 \<le> r \<Longrightarrow> 0 \<le> c \<Longrightarrow> get_object m (QModelIndex r c q) = q"
  by (simp_all add: get_object_def isValid_def invalid_index_def get_dataset_def
      example_model_def scenario_model_def)

lemma example_get_dataset:
  "get_dataset example_model = Some []" "get_dataset pixel_model = Some []"
  by (simp_all add: get_dataset_def example_model_def scenario_model_def pixel_model_def)

lemma example_events:
  "events example_model = []" "events sequence_model = []"
  by (simp_all add: example_model_def scenario_model_def sequence_model_def)

lemma scenario_rowCount:
  "rowCount (scenario_model v1 v2 v3 u es) invalid_index = Inr 2"
proof -
  have g: "get_object (scenario_model v1 v2 v3 u es) invalid_index = Some []"
    by (simp add: get_object_def invalid_index_def isValid_def get_dataset_def scenario_model_def)
  have d: "deref (scenario_model v1 v2 v3 u es) [] = Some (scenario_dataset v1 v2 v3)"
    by (simp add: deref_def scenario_model_def)
  show ?thesis
    by (subst rowCount_dataset_or_item[OF g d])
      (simp_all add: scenario_dataset_def visible_def is_DcmElement_def is_DcmItem_def
        is_allowed_edit_tag_def)
qed

lemma scenario_index_0:
  "index_loop (scenario_dataset v1 v2 v3) [] 0 c 3 0 (- 1) = createIndex 0 c (Some [0])"
  by (subst index_loop.simps) (simp add: eval_defs scenario_dataset_def)

lemma scenario_index_1:
  "index_loop (scenario_dataset v1 v2 v3) [] 1 c 3 0 (- 1) = createIndex 1 c (Some [2])"
  apply (subst index_loop.simps, simp add: eval_defs scenario_dataset_def)
  apply (subst index_loop.simps, simp add: eval_defs)
  apply (subst index_loop.simps, simp add: eval_defs)
  done

lemma sequence_model_facts:
  "get_object sequence_model sequence_address = Some [0]"
  "deref sequence_model [0] = Some referenced_sequence"
  "is_DcmSequenceOfItems referenced_sequence"
  "ident referenced_sequence = EVR_SQ"
  "children referenced_sequence = [new_DcmItem]"
  by (simp_all add: get_object_def sequence_address_def isValid_def deref_def sequence_model_def
      is_DcmSequenceOfItems_def referenced_sequence_def)

lemma sequence_model_rowCount: "rowCount sequence_model sequence_address = Inr 0"
  by (rule rowCount_sequence_of_items[OF sequence_model_facts(1,2)])
    (simp_all add: referenced_sequence_def new_DcmItem_def is_DcmItem_def)

subsection \<open>The projection: C1, C2, C3\<close>

text \<open>
  C1, at a sequence of items. The address resolves to a sequence that holds one item,
  and \<open>rowCount\<close> answers 0 where the claim has 1: the loop fetches the item and drops
  it, since the cast of an item to \<open>DcmElement\<close> is null.
\<close>

theorem rowCount_sequence_with_one_item:
  "sequence_at sequence_model sequence_address = Inr (Some ([0], referenced_sequence))
   \<and> children referenced_sequence = [new_DcmItem]
   \<and> getNumberOfValues referenced_sequence = 1
   \<and> rowCount sequence_model sequence_address = Inr 0"
  using sequence_model_facts sequence_model_rowCount
  by (simp add: sequence_at_def getNumberOfValues_def)

text \<open>
  C2. A leaf element passes the edit policy exactly when its tag is one of (0010,0010),
  (0010,0020), (0020,000D), whatever its VR, the bytes of its value and their number;
  a null element is rejected with the result false.
\<close>

theorem is_allowed_edit_tag_iff_whitelisted:
  "is_allowed_edit_tag (Some (DcmObject vr key bytes cs))
     = (key = (0x0010, 0x0010) \<or> key = (0x0010, 0x0020) \<or> key = (0x0020, 0x000D))
   \<and> is_allowed_edit_tag (Some (DcmObject vr key bytes cs))
     = is_allowed_edit_tag (Some (DcmObject vr' key bytes' cs'))
   \<and> is_allowed_edit_tag None = False"
  by (simp add: is_allowed_edit_tag_def)

text \<open>
  C3. In the scenario the root has two rows; row 0 is the leaf (0010,0010) and row 1 the
  leaf (0010,0020), the third child, so the rows number the allowed leaves densely in
  their order. A row below 0 or not below the row count, a column outside the four
  columns and a parent whose object is null all give the invalid index as a result, in
  every state in which the row count of the parent can be read.
\<close>

theorem index_scenario:
  "rowCount (scenario_model v1 v2 v3 u es) invalid_index = Inr 2
   \<and> index (scenario_model v1 v2 v3 u es) 0 0 invalid_index = Inr (createIndex 0 0 (Some [0]))
   \<and> deref (scenario_model v1 v2 v3 u es) [0] = Some (DcmObject EVR_PN (0x0010, 0x0010) v1 [])
   \<and> index (scenario_model v1 v2 v3 u es) 1 0 invalid_index = Inr (createIndex 1 0 (Some [2]))
   \<and> deref (scenario_model v1 v2 v3 u es) [2] = Some (DcmObject EVR_LO (0x0010, 0x0020) v3 [])
   \<and> (\<forall>r c. r < 0 \<or> 2 \<le> r
         \<longrightarrow> index (scenario_model v1 v2 v3 u es) r c invalid_index = Inr invalid_index)
   \<and> (\<forall>m par n r c.
         rowCount m par = Inr n \<and> (r < 0 \<or> n \<le> r \<or> c < 0 \<or> columnCount \<le> c)
         \<longrightarrow> index m r c par = Inr invalid_index)
   \<and> (\<forall>m par r c. isValid par \<and> internalPointer par = None
         \<longrightarrow> index m r c par = Inr invalid_index)"
proof -
  let ?m = "scenario_model v1 v2 v3 u es"
  have rc: "rowCount ?m invalid_index = Inr 2"
    by (rule scenario_rowCount)
  have g: "get_object ?m invalid_index = Some []"
    by (simp add: get_object_def invalid_index_def isValid_def get_dataset_def scenario_model_def)
  have d: "deref ?m [] = Some (scenario_dataset v1 v2 v3)"
    by (simp add: deref_def scenario_model_def)
  have n: "to_int (getNumberOfValues (scenario_dataset v1 v2 v3)) = 3"
    by (simp add: getNumberOfValues_def scenario_dataset_def to_int_small)
  have i0: "index ?m 0 0 invalid_index = Inr (createIndex 0 0 (Some [0]))"
    by (simp add: index_def hasIndex_def rc columnCount_def g d n scenario_index_0)
  have i1: "index ?m 1 0 invalid_index = Inr (createIndex 1 0 (Some [2]))"
    by (simp add: index_def hasIndex_def rc columnCount_def g d n scenario_index_1)
  have d0: "deref ?m [0] = Some (DcmObject EVR_PN (0x0010, 0x0010) v1 [])"
    by (simp add: deref_def scenario_model_def scenario_dataset_def)
  have d2: "deref ?m [2] = Some (DcmObject EVR_LO (0x0010, 0x0020) v3 [])"
    by (simp add: deref_def scenario_model_def scenario_dataset_def)
  have out: "\<forall>r c. r < 0 \<or> 2 \<le> r \<longrightarrow> index ?m r c invalid_index = Inr invalid_index"
    using index_out_of_range[OF rc] by blast
  have gen: "\<forall>m par n r c.
         rowCount m par = Inr n \<and> (r < 0 \<or> n \<le> r \<or> c < 0 \<or> columnCount \<le> c)
         \<longrightarrow> index m r c par = Inr invalid_index"
    using index_out_of_range by blast
  have nul: "\<forall>m par r c. isValid par \<and> internalPointer par = None
         \<longrightarrow> index m r c par = Inr invalid_index"
    using index_null_parent by blast
  show ?thesis
    using rc i0 d0 i1 d2 out gen nul by (intro conjI)
qed

theorem index_scenario_witness:
  "index example_model 2 0 invalid_index = Inr invalid_index
   \<and> index example_model (- 1) 0 invalid_index = Inr invalid_index
   \<and> rowCount example_model invalid_index = Inr 2
   \<and> index example_model 0 4 invalid_index = Inr invalid_index
   \<and> isValid (QModelIndex 0 0 None)
   \<and> internalPointer (QModelIndex 0 0 None) = None
   \<and> index example_model 0 0 (QModelIndex 0 0 None) = Inr invalid_index"
proof -
  note t = index_scenario[of "[0x41, 0x20]" "[0x32, 0x30, 0x32, 0x34, 0x30, 0x31, 0x30, 0x31]"
      "[0x42, 0x20]" False "[]", folded example_model_def]
  have v: "isValid (QModelIndex 0 0 None)"
    by (simp add: isValid_def)
  have rc: "rowCount example_model invalid_index = Inr 2"
    using t by blast
  have a: "index example_model 2 0 invalid_index = Inr invalid_index"
    using t by simp
  have b: "index example_model (- 1) 0 invalid_index = Inr invalid_index"
    using t by simp
  have "\<forall>m par n r c.
         rowCount m par = Inr n \<and> (r < 0 \<or> n \<le> r \<or> c < 0 \<or> columnCount \<le> c)
         \<longrightarrow> index m r c par = Inr invalid_index"
    using t by blast
  then have c: "index example_model 0 4 invalid_index = Inr invalid_index"
    using rc by (simp add: columnCount_def)
  have "\<forall>m par r c. isValid par \<and> internalPointer par = None
         \<longrightarrow> index m r c par = Inr invalid_index"
    using t by blast
  then have e: "index example_model 0 0 (QModelIndex 0 0 None) = Inr invalid_index"
    using v by simp
  show ?thesis
    using a b rc c v e by (intro conjI) simp_all
qed

subsection \<open>Value edits: C5, C6, C4\<close>

lemma odd_ucast: "odd (ucast (w :: 64 word) :: 32 word) = odd w"
proof -
  have "bit (ucast w :: 32 word) 0 = bit w 0"
    by (simp add: bit_ucast_iff)
  then show ?thesis by (simp add: bit_0)
qed

text \<open>The cast of the file size to 32 bits keeps its lowest bit.\<close>

lemma odd_file_size:
  "odd n \<Longrightarrow> (ucast (word_of_nat n :: 64 word) :: 32 word) mod 2 \<noteq> 0"
proof -
  assume "odd n"
  then have "odd (word_of_nat n :: 64 word)" by simp
  then have "odd (ucast (word_of_nat n :: 64 word) :: 32 word)" by (simp add: odd_ucast)
  then show ?thesis by (simp only: even_iff_mod_2_eq_zero not_False_eq_True)
qed

lemma set_value_allowed_events:
  assumes "get_object m idx = Some p" and "deref m p = Some e" and "is_DcmElement e"
    and "is_allowed_edit_tag (Some e)"
  shows "events (snd (set_value putString m idx v))
           = events m @ [codec_putString p v, dataChanged idx idx, dataset_changed]"
proof -
  obtain fl where f: "current_file m = Some fl"
    using deref_current_file[OF assms(2)] by blast
  obtain status e' where ps: "putString e v = (status, e')"
    by (cases "putString e v")
  show ?thesis
    using assms f ps
    by (simp add: set_value_def element_at_element Let_def mark_as_modified_def)
qed

lemma set_value_from_file_allowed:
  assumes "get_object m idx = Some p" and "deref m p = Some e" and "is_DcmElement e"
    and "is_allowed_edit_tag (Some e)"
  shows "set_value_from_file cvf disk m idx file_path
           = (Inl (Runtime_error ''file size must be even''), m)
       \<or> events (snd (set_value_from_file cvf disk m idx file_path))
           = events m @ [codec_createValueFromTempFile p, dataChanged idx idx, dataset_changed]"
proof -
  obtain fl where f: "current_file m = Some fl"
    using deref_current_file[OF assms(2)] by blast
  obtain status e' where
    ps: "cvf e (disk file_path) (ucast (getFileSize disk file_path)) = (status, e')"
    by (cases "cvf e (disk file_path) (ucast (getFileSize disk file_path))")
  show ?thesis
    using assms f ps
    by (simp add: set_value_from_file_def element_at_element Let_def mark_as_modified_def)
qed

text \<open>
  C5. When the address resolves to a leaf whose tag is not one of the three, \<open>set_value\<close>
  returns without an error and leaves the whole state as it was: the dataset with every
  value in it, the unsaved-changes flag of the file, and the calls made so far (no
  \<open>dataChanged\<close>, no \<open>dataset_changed\<close>), whatever the text and whatever \<open>putString\<close>
  would answer.
\<close>

theorem set_value_not_whitelisted:
  assumes "get_object m idx = Some p" and "deref m p = Some L" and "isLeaf L"
    and "getTag L \<notin> whitelist"
  shows "set_value putString m idx v = (Inr (), m)"
  using assms
  by (simp add: set_value_def element_at_element leaf_is_element allowed_iff_whitelist)

theorem set_value_not_whitelisted_witness:
  "get_object example_model (QModelIndex 1 3 (Some [1])) = Some [1]
   \<and> deref example_model [1]
       = Some (DcmObject EVR_DA (0x0008, 0x0020)
                 [0x32, 0x30, 0x32, 0x34, 0x30, 0x31, 0x30, 0x31] [])
   \<and> isLeaf (DcmObject EVR_DA (0x0008, 0x0020)
               [0x32, 0x30, 0x32, 0x34, 0x30, 0x31, 0x30, 0x31] [])
   \<and> getTag (DcmObject EVR_DA (0x0008, 0x0020)
               [0x32, 0x30, 0x32, 0x34, 0x30, 0x31, 0x30, 0x31] []) \<notin> whitelist
   \<and> set_value accepting_putString example_model (QModelIndex 1 3 (Some [1])) ''20250101''
       = (Inr (), example_model)"
proof -
  let ?L = "DcmObject EVR_DA (0x0008, 0x0020) [0x32, 0x30, 0x32, 0x34, 0x30, 0x31, 0x30, 0x31] []"
  have g: "get_object example_model (QModelIndex 1 3 (Some [1])) = Some [1]"
    by (simp add: example_get_object)
  have d: "deref example_model [1] = Some ?L"
    by (rule example_deref)
  have l: "isLeaf ?L"
    by (simp add: isLeaf_def is_DcmItem_def is_DcmSequenceOfItems_def)
  have w: "getTag ?L \<notin> whitelist"
    by (simp add: whitelist_def)
  show ?thesis
    using g d l w set_value_not_whitelisted[OF g d l w, of accepting_putString "''20250101''"]
    by (intro conjI)
qed

text \<open>
  C6. When the address resolves to a leaf with one of the three tags and the file holds
  an odd number of bytes, \<open>set_value_from_file\<close> throws "file size must be even" and
  leaves the whole state as it was: the value, the calls made so far and the
  unsaved-changes flag.
\<close>

theorem set_value_from_file_odd:
  assumes "get_object m idx = Some p" and "deref m p = Some L" and "isLeaf L"
    and "getTag L \<in> whitelist" and "disk file_path = Some bytes" and "odd (length bytes)"
  shows "set_value_from_file createValueFromTempFile disk m idx file_path
           = (Inl (Runtime_error ''file size must be even''), m)"
proof -
  have "(ucast (getFileSize disk file_path) :: 32 word) mod 2 \<noteq> 0"
    using assms(5,6) by (simp add: getFileSize_def odd_file_size)
  then show ?thesis
    using assms(1-4)
    by (simp add: set_value_from_file_def element_at_element leaf_is_element
        allowed_iff_whitelist Let_def)
qed

theorem set_value_from_file_odd_witness:
  "get_object example_model (QModelIndex 0 3 (Some [0])) = Some [0]
   \<and> deref example_model [0] = Some (DcmObject EVR_PN (0x0010, 0x0010) [0x41, 0x20] [])
   \<and> isLeaf (DcmObject EVR_PN (0x0010, 0x0010) [0x41, 0x20] [])
   \<and> getTag (DcmObject EVR_PN (0x0010, 0x0010) [0x41, 0x20] []) \<in> whitelist
   \<and> example_disk ''odd.bin'' = Some [1, 2, 3]
   \<and> odd (length [1, 2, 3 :: 8 word])
   \<and> set_value_from_file accepting_createValue example_disk example_model
        (QModelIndex 0 3 (Some [0])) ''odd.bin''
       = (Inl (Runtime_error ''file size must be even''), example_model)"
proof -
  let ?L = "DcmObject EVR_PN (0x0010, 0x0010) [0x41, 0x20] []"
  have g: "get_object example_model (QModelIndex 0 3 (Some [0])) = Some [0]"
    by (simp add: example_get_object)
  have d: "deref example_model [0] = Some ?L"
    by (rule example_deref)
  have l: "isLeaf ?L"
    by (simp add: isLeaf_def is_DcmItem_def is_DcmSequenceOfItems_def)
  have w: "getTag ?L \<in> whitelist"
    by (simp add: whitelist_def)
  have k: "example_disk ''odd.bin'' = Some [1, 2, 3]"
    by (simp add: example_disk_def)
  have o: "odd (length [1, 2, 3 :: 8 word])"
    by simp
  show ?thesis
    using g d l w k o
      set_value_from_file_odd[where disk = example_disk and file_path = "''odd.bin''"
        and createValueFromTempFile = accepting_createValue, OF g d l w k o]
    by (intro conjI)
qed

text \<open>
  C4. At a valid address that resolves to an element, each of the four paths decides by
  \<open>is_allowed_edit_tag\<close> of that element and by nothing else: \<open>set_value\<close> and
  \<open>set_value_from_file\<close> are the silent no-op exactly when it is false, \<open>setData\<close> with
  the edit role is the refusal that changes nothing exactly when it is false, and
  \<open>flags\<close> has the editable flag exactly when it is true and the column is the value
  column.
\<close>

theorem edit_paths:
  assumes "isValid idx" and "get_object m idx = Some p" and "deref m p = Some e"
    and "is_DcmElement e"
  shows "(set_value putString m idx v = (Inr (), m)) = (\<not> is_allowed_edit_tag (Some e))
    \<and> (set_value_from_file cvf disk m idx file_path = (Inr (), m))
        = (\<not> is_allowed_edit_tag (Some e))
    \<and> (setData putString m idx v EditRole = (Inr False, m)) = (\<not> is_allowed_edit_tag (Some e))
    \<and> flags m idx
        = Inr (if column idx = 3 \<and> is_allowed_edit_tag (Some e)
               then {ItemIsEnabled, ItemIsSelectable, ItemIsEditable}
               else {ItemIsEnabled, ItemIsSelectable})"
proof (intro conjI)
  note el = element_at_element[OF assms(2,3,4)]
  show "(set_value putString m idx v = (Inr (), m)) = (\<not> is_allowed_edit_tag (Some e))"
  proof (cases "is_allowed_edit_tag (Some e)")
    case True
    have "events (snd (set_value putString m idx v)) \<noteq> events m"
      by (simp add: set_value_allowed_events[OF assms(2,3,4) True])
    then have "set_value putString m idx v \<noteq> (Inr (), m)" by auto
    then show ?thesis using True by simp
  next
    case False
    then show ?thesis by (simp add: set_value_def el)
  qed
  show "(set_value_from_file cvf disk m idx file_path = (Inr (), m))
        = (\<not> is_allowed_edit_tag (Some e))"
  proof (cases "is_allowed_edit_tag (Some e)")
    case True
    have "set_value_from_file cvf disk m idx file_path \<noteq> (Inr (), m)"
      using set_value_from_file_allowed[OF assms(2,3,4) True, of cvf disk file_path]
      by auto
    then show ?thesis using True by simp
  next
    case False
    then show ?thesis by (simp add: set_value_from_file_def el)
  qed
  show "(setData putString m idx v EditRole = (Inr False, m))
        = (\<not> is_allowed_edit_tag (Some e))"
  proof (cases "is_allowed_edit_tag (Some e)")
    case True
    obtain res m' where sv: "set_value putString m idx v = (res, m')"
      by (cases "set_value putString m idx v")
    have ev: "events m' = events m @ [codec_putString p v, dataChanged idx idx, dataset_changed]"
      using set_value_allowed_events[OF assms(2,3,4) True, of putString v] sv by simp
    have "setData putString m idx v EditRole \<noteq> (Inr False, m)"
      using assms(1) True ev
      by (auto simp: setData_def el sv split: sum.splits error.splits)
    then show ?thesis using True by simp
  next
    case False
    then show ?thesis using assms(1) by (simp add: setData_def el)
  qed
  show "flags m idx
        = Inr (if column idx = 3 \<and> is_allowed_edit_tag (Some e)
               then {ItemIsEnabled, ItemIsSelectable, ItemIsEditable}
               else {ItemIsEnabled, ItemIsSelectable})"
    using assms(1) by (simp add: flags_def el)
qed

theorem edit_paths_witness:
  "isValid (QModelIndex 0 3 (Some [0]))
   \<and> get_object example_model (QModelIndex 0 3 (Some [0])) = Some [0]
   \<and> deref example_model [0] = Some (DcmObject EVR_PN (0x0010, 0x0010) [0x41, 0x20] [])
   \<and> is_DcmElement (DcmObject EVR_PN (0x0010, 0x0010) [0x41, 0x20] [])
   \<and> set_value accepting_putString example_model (QModelIndex 0 3 (Some [0])) ''C''
        \<noteq> (Inr (), example_model)
   \<and> set_value_from_file accepting_createValue example_disk example_model
        (QModelIndex 0 3 (Some [0])) ''odd.bin'' \<noteq> (Inr (), example_model)
   \<and> setData accepting_putString example_model (QModelIndex 0 3 (Some [0])) ''C'' EditRole
        \<noteq> (Inr False, example_model)
   \<and> flags example_model (QModelIndex 0 3 (Some [0]))
        = Inr {ItemIsEnabled, ItemIsSelectable, ItemIsEditable}
   \<and> isValid (QModelIndex 1 3 (Some [1]))
   \<and> get_object example_model (QModelIndex 1 3 (Some [1])) = Some [1]
   \<and> deref example_model [1]
       = Some (DcmObject EVR_DA (0x0008, 0x0020)
                 [0x32, 0x30, 0x32, 0x34, 0x30, 0x31, 0x30, 0x31] [])
   \<and> is_DcmElement
        (DcmObject EVR_DA (0x0008, 0x0020) [0x32, 0x30, 0x32, 0x34, 0x30, 0x31, 0x30, 0x31] [])
   \<and> set_value accepting_putString example_model (QModelIndex 1 3 (Some [1])) ''C''
        = (Inr (), example_model)
   \<and> set_value_from_file accepting_createValue example_disk example_model
        (QModelIndex 1 3 (Some [1])) ''odd.bin'' = (Inr (), example_model)
   \<and> setData accepting_putString example_model (QModelIndex 1 3 (Some [1])) ''C'' EditRole
        = (Inr False, example_model)
   \<and> flags example_model (QModelIndex 1 3 (Some [1])) = Inr {ItemIsEnabled, ItemIsSelectable}"
proof -
  let ?A = "DcmObject EVR_PN (0x0010, 0x0010) [0x41, 0x20] []"
  let ?B = "DcmObject EVR_DA (0x0008, 0x0020) [0x32, 0x30, 0x32, 0x34, 0x30, 0x31, 0x30, 0x31] []"
  have va: "isValid (QModelIndex 0 3 (Some [0]))" and vb: "isValid (QModelIndex 1 3 (Some [1]))"
    by (simp_all add: isValid_def)
  have ga: "get_object example_model (QModelIndex 0 3 (Some [0])) = Some [0]"
    and gb: "get_object example_model (QModelIndex 1 3 (Some [1])) = Some [1]"
    by (simp_all add: example_get_object)
  have da: "deref example_model [0] = Some ?A" and db: "deref example_model [1] = Some ?B"
    by (rule example_deref)+
  have ea: "is_DcmElement ?A" and eb: "is_DcmElement ?B"
    by (simp_all add: is_DcmElement_def is_DcmItem_def)
  have aa: "is_allowed_edit_tag (Some ?A)" and ab: "\<not> is_allowed_edit_tag (Some ?B)"
    by (simp_all add: is_allowed_edit_tag_def)
  note ta = edit_paths[OF va ga da ea, of accepting_putString "''C''" accepting_createValue
      example_disk "''odd.bin''"]
  note tb = edit_paths[OF vb gb db eb, of accepting_putString "''C''" accepting_createValue
      example_disk "''odd.bin''"]
  have ca: "set_value accepting_putString example_model (QModelIndex 0 3 (Some [0])) ''C''
        \<noteq> (Inr (), example_model)"
    "set_value_from_file accepting_createValue example_disk example_model
        (QModelIndex 0 3 (Some [0])) ''odd.bin'' \<noteq> (Inr (), example_model)"
    "setData accepting_putString example_model (QModelIndex 0 3 (Some [0])) ''C'' EditRole
        \<noteq> (Inr False, example_model)"
    "flags example_model (QModelIndex 0 3 (Some [0]))
        = Inr {ItemIsEnabled, ItemIsSelectable, ItemIsEditable}"
    using ta aa by simp_all
  have cb: "set_value accepting_putString example_model (QModelIndex 1 3 (Some [1])) ''C''
        = (Inr (), example_model)"
    "set_value_from_file accepting_createValue example_disk example_model
        (QModelIndex 1 3 (Some [1])) ''odd.bin'' = (Inr (), example_model)"
    "setData accepting_putString example_model (QModelIndex 1 3 (Some [1])) ''C'' EditRole
        = (Inr False, example_model)"
    "flags example_model (QModelIndex 1 3 (Some [1])) = Inr {ItemIsEnabled, ItemIsSelectable}"
    using tb ab by simp_all
  show ?thesis
    using va ga da ea ca vb gb db eb cb by (intro conjI)
qed

subsection \<open>Structural operations: C7, C8, C10\<close>

lemma events_remove_and_delete:
  "events (remove_and_delete p ob r m)
     = events m @ (if 0 \<le> r \<and> nat r < length (children ob)
                   then [codec_remove p r, codec_delete (p @ [nat r])]
                   else [codec_remove p r])"
  by (simp add: remove_and_delete_def remove_child_def Let_def)

lemma current_file_remove_and_delete:
  "current_file m = Some fl \<Longrightarrow>
   \<exists>fl'. current_file (remove_and_delete p ob r m) = Some fl'"
  by (simp add: remove_and_delete_def remove_child_def Let_def)

text \<open>A run of \<open>delete_index\<close> that gets past the checks at its entry.\<close>

lemma delete_index_run:
  assumes "isValid idx" and "parent gin m idx = Inr pidx" and "get_object m pidx = Some pp"
    and "deref m pp = Some pobj"
  shows "\<exists>fl. current_file (snd (delete_index gin m idx)) = Some fl \<and> unsaved_changes fl"
    and "fst (delete_index gin m idx)
       = (if ident pobj = EVR_item \<or> ident pobj = EVR_dataset \<or> ident pobj = EVR_SQ
          then Inr () else Inl (Unexpected_VR (ident pobj)))"
    and "events (snd (delete_index gin m idx))
       = events m @ [beginRemoveRows pidx (row idx) (row idx)]
          @ (if ident pobj = EVR_item \<or> ident pobj = EVR_dataset \<or> ident pobj = EVR_SQ
             then (if nat (row idx) < length (children pobj)
                   then [codec_remove pp (row idx), codec_delete (pp @ [nat (row idx)])]
                   else [codec_remove pp (row idx)])
             else [])
          @ [endRemoveRows, dataset_changed]"
proof -
  obtain fl where f: "current_file m = Some fl"
    using deref_current_file[OF assms(4)] by blast
  have r0: "0 \<le> row idx"
    using assms(1) by (simp add: isValid_def)
  let ?m1 = "emit (beginRemoveRows pidx (row idx) (row idx)) m"
  have f1: "current_file ?m1 = Some fl"
    using f by simp
  obtain fl' where f2: "current_file (remove_and_delete pp pobj (row idx) ?m1) = Some fl'"
    using current_file_remove_and_delete[OF f1] by blast
  show "\<exists>fl. current_file (snd (delete_index gin m idx)) = Some fl \<and> unsaved_changes fl"
    using assms f f2
    by (simp add: delete_index_def Let_def mark_as_modified_def emit_def)
  show "fst (delete_index gin m idx)
       = (if ident pobj = EVR_item \<or> ident pobj = EVR_dataset \<or> ident pobj = EVR_SQ
          then Inr () else Inl (Unexpected_VR (ident pobj)))"
    using assms f f2
    by (simp add: delete_index_def Let_def mark_as_modified_def emit_def)
  show "events (snd (delete_index gin m idx))
       = events m @ [beginRemoveRows pidx (row idx) (row idx)]
          @ (if ident pobj = EVR_item \<or> ident pobj = EVR_dataset \<or> ident pobj = EVR_SQ
             then (if nat (row idx) < length (children pobj)
                   then [codec_remove pp (row idx), codec_delete (pp @ [nat (row idx)])]
                   else [codec_remove pp (row idx)])
             else [])
          @ [endRemoveRows, dataset_changed]"
    using assms f f2 r0
    by (simp add: delete_index_def Let_def mark_as_modified_def events_remove_and_delete)
qed

text \<open>A run that one of the checks at the entry stops changes nothing.\<close>

lemma delete_index_refused:
  assumes "\<not> (isValid idx \<and> (\<exists>pidx pp pobj. parent gin m idx = Inr pidx
              \<and> get_object m pidx = Some pp \<and> deref m pp = Some pobj))"
  shows "snd (delete_index gin m idx) = m"
  using assms
  by (auto simp: delete_index_def split: sum.splits option.splits)

text \<open>A run of \<open>add_item\<close> at a sequence, and a run that stops at the cast.\<close>

lemma add_item_run:
  assumes "get_object m idx = Some p" and "deref m p = Some sq" and "is_DcmSequenceOfItems sq"
    and "append_item sq new_DcmItem = (status, sq')" and "rowCount m idx = Inr n"
  shows "\<exists>fl. current_file (snd (add_item append_item m idx)) = Some fl \<and> unsaved_changes fl"
    and "fst (add_item append_item m idx)
       = (if bad status then Inl (Runtime_error (text_of status)) else Inr ())"
    and "events (snd (add_item append_item m idx))
       = events m @ [beginInsertRows idx n n, codec_append p, endInsertRows, dataset_changed]"
proof -
  obtain fl where f: "current_file m = Some fl"
    using deref_current_file[OF assms(2)] by blast
  note sq = sequence_at_sequence[OF assms(1,2,3)]
  show "\<exists>fl. current_file (snd (add_item append_item m idx)) = Some fl \<and> unsaved_changes fl"
    using assms(4,5) f by (simp add: add_item_def sq Let_def mark_as_modified_def emit_def)
  show "fst (add_item append_item m idx)
       = (if bad status then Inl (Runtime_error (text_of status)) else Inr ())"
    using assms(4,5) f by (simp add: add_item_def sq Let_def mark_as_modified_def emit_def)
  show "events (snd (add_item append_item m idx))
       = events m @ [beginInsertRows idx n n, codec_append p, endInsertRows, dataset_changed]"
    using assms(4,5) f by (simp add: add_item_def sq Let_def mark_as_modified_def)
qed

lemma add_item_refused:
  assumes "\<not> (\<exists>p sq. get_object m idx = Some p \<and> deref m p = Some sq
              \<and> is_DcmSequenceOfItems sq)"
  shows "snd (add_item append_item m idx) = m"
  using assms
  by (auto simp: add_item_def sequence_at_def split: sum.splits option.splits if_splits)

lemma bracketed_add_item:
  "bracketed None (drop (length (events m)) (events (snd (add_item append_item m idx))))"
proof (cases "\<exists>p sq. get_object m idx = Some p \<and> deref m p = Some sq
    \<and> is_DcmSequenceOfItems sq")
  case False
  then show ?thesis by (simp add: add_item_refused)
next
  case True
  then obtain p sq where h: "get_object m idx = Some p" "deref m p = Some sq"
    "is_DcmSequenceOfItems sq" by blast
  obtain status sq' where a: "append_item sq new_DcmItem = (status, sq')"
    by (cases "append_item sq new_DcmItem")
  obtain n where n: "rowCount m idx = Inr n"
    using rowCount_live[OF h(1,2)] by blast
  show ?thesis
    using add_item_run(3)[of m idx p sq append_item status sq' n] h a n by simp
qed

lemma bracketed_delete_index:
  "bracketed None (drop (length (events m)) (events (snd (delete_index gin m idx))))"
proof (cases "isValid idx \<and> (\<exists>pidx pp pobj. parent gin m idx = Inr pidx
              \<and> get_object m pidx = Some pp \<and> deref m pp = Some pobj)")
  case False
  then show ?thesis by (simp add: delete_index_refused)
next
  case True
  then obtain pidx pp pobj where h: "isValid idx" "parent gin m idx = Inr pidx"
    "get_object m pidx = Some pp" "deref m pp = Some pobj" by blast
  show ?thesis
    by (simp add: delete_index_run(3)[OF h])
qed

text \<open>
  Against C7 as it is stated: \<open>delete_index\<close> at the invalid index throws "invalid index"
  at its first check, and the file, saved before, is saved after.
\<close>

theorem delete_index_invalid_index_counterexample:
  "fst (delete_index last_position example_model invalid_index)
      = Inl (Runtime_error ''invalid index'')
   \<and> map_option unsaved_changes (current_file example_model) = Some False
   \<and> map_option unsaved_changes
        (current_file (snd (delete_index last_position example_model invalid_index)))
      = Some False"
  by (simp add: delete_index_def isValid_def invalid_index_def example_model_def
      scenario_model_def)

text \<open>
  C7, amended. In every run of \<open>delete_index\<close> that gets past the checks at its entry
  (the index is valid and the parent object is there), the file has unsaved changes
  afterwards, whether the removal happened, found nothing at the row, or was not tried
  because the parent is of an unexpected kind; in the last case the error is thrown after
  the end notification and the marking, which stay.
\<close>

theorem delete_index_marks_dirty:
  assumes "isValid idx" and "parent get_index_nr m idx = Inr parent_idx"
    and "get_object m parent_idx = Some pp" and "deref m pp = Some parent_obj"
  shows "map_option unsaved_changes (current_file (snd (delete_index get_index_nr m idx)))
           = Some True
    \<and> fst (delete_index get_index_nr m idx)
        = (if ident parent_obj = EVR_item \<or> ident parent_obj = EVR_dataset
              \<or> ident parent_obj = EVR_SQ
           then Inr () else Inl (Unexpected_VR (ident parent_obj)))
    \<and> events (snd (delete_index get_index_nr m idx))
        = events m @ [beginRemoveRows parent_idx (row idx) (row idx)]
           @ (if ident parent_obj = EVR_item \<or> ident parent_obj = EVR_dataset
                 \<or> ident parent_obj = EVR_SQ
              then (if nat (row idx) < length (children parent_obj)
                    then [codec_remove pp (row idx), codec_delete (pp @ [nat (row idx)])]
                    else [codec_remove pp (row idx)])
              else [])
           @ [endRemoveRows, dataset_changed]"
  using delete_index_run[OF assms] by (simp only: dirty_iff simp_thms)

theorem delete_index_marks_dirty_witness:
  "isValid (QModelIndex 0 0 (Some [0, 0]))
   \<and> parent last_position pixel_model (QModelIndex 0 0 (Some [0, 0]))
       = Inr (QModelIndex 0 0 (Some [0]))
   \<and> get_object pixel_model (QModelIndex 0 0 (Some [0])) = Some [0]
   \<and> deref pixel_model [0] = Some pixel_sequence
   \<and> fst (delete_index last_position pixel_model (QModelIndex 0 0 (Some [0, 0])))
       = Inl (Unexpected_VR EVR_pixelSQ)
   \<and> map_option unsaved_changes
        (current_file (snd (delete_index last_position pixel_model
                              (QModelIndex 0 0 (Some [0, 0])))))
       = Some True
   \<and> isValid (QModelIndex 7 0 (Some [0]))
   \<and> parent last_position example_model (QModelIndex 7 0 (Some [0])) = Inr invalid_index
   \<and> get_object example_model invalid_index = Some []
   \<and> deref example_model []
       = Some (scenario_dataset [0x41, 0x20] [0x32, 0x30, 0x32, 0x34, 0x30, 0x31, 0x30, 0x31]
                 [0x42, 0x20])
   \<and> fst (delete_index last_position example_model (QModelIndex 7 0 (Some [0]))) = Inr ()
   \<and> events (snd (delete_index last_position example_model (QModelIndex 7 0 (Some [0]))))
       = [beginRemoveRows invalid_index 7 7, codec_remove [] 7, endRemoveRows, dataset_changed]
   \<and> map_option unsaved_changes
        (current_file (snd (delete_index last_position example_model
                              (QModelIndex 7 0 (Some [0])))))
       = Some True"
proof -
  let ?S = "scenario_dataset [0x41, 0x20] [0x32, 0x30, 0x32, 0x34, 0x30, 0x31, 0x30, 0x31]
              [0x42, 0x20]"
  have va: "isValid (QModelIndex 0 0 (Some [0, 0]))"
    and vb: "isValid (QModelIndex 7 0 (Some [0]))"
    by (simp_all add: isValid_def)
  have dp: "deref pixel_model [0, 0] = Some (DcmObject EVR_pixelItem (0xFFFE, 0xE000) [] [])"
    by (simp add: deref_def pixel_model_def pixel_sequence_def)
  have pa: "parent last_position pixel_model (QModelIndex 0 0 (Some [0, 0]))
       = Inr (QModelIndex 0 0 (Some [0]))"
    by (simp add: parent_def va example_get_object dp getParent_def example_get_dataset
        createIndex_def last_position_def)
  have ga: "get_object pixel_model (QModelIndex 0 0 (Some [0])) = Some [0]"
    by (simp add: example_get_object)
  have da: "deref pixel_model [0] = Some pixel_sequence"
    by (simp add: deref_def pixel_model_def)
  have pb: "parent last_position example_model (QModelIndex 7 0 (Some [0])) = Inr invalid_index"
    by (simp add: parent_def vb example_get_object example_deref getParent_def
        example_get_dataset)
  have gb: "get_object example_model invalid_index = Some []"
    by (rule example_get_object)
  have db: "deref example_model [] = Some ?S"
    by (rule example_deref)
  note ta = delete_index_marks_dirty[OF va pa ga da]
  note tb = delete_index_marks_dirty[OF vb pb gb db]
  have ca: "fst (delete_index last_position pixel_model (QModelIndex 0 0 (Some [0, 0])))
       = Inl (Unexpected_VR EVR_pixelSQ)"
    "map_option unsaved_changes
        (current_file (snd (delete_index last_position pixel_model
                              (QModelIndex 0 0 (Some [0, 0])))))
       = Some True"
    using ta by (simp_all add: pixel_sequence_def)
  have cb: "fst (delete_index last_position example_model (QModelIndex 7 0 (Some [0]))) = Inr ()"
    "events (snd (delete_index last_position example_model (QModelIndex 7 0 (Some [0]))))
       = [beginRemoveRows invalid_index 7 7, codec_remove [] 7, endRemoveRows, dataset_changed]"
    "map_option unsaved_changes
        (current_file (snd (delete_index last_position example_model
                              (QModelIndex 7 0 (Some [0])))))
       = Some True"
    using tb by (simp_all add: scenario_dataset_def example_events)
  show ?thesis
    using va pa ga da ca vb pb gb db cb by (intro conjI)
qed

text \<open>
  C8. The calls that \<open>add_item\<close> and \<open>delete_index\<close> add to the calls made so far keep the
  bracket discipline in every run: a call that changes the shape of the tree stands
  between a begin notification and its end notification, brackets do not nest and none
  stays open. Deleting row 0 under a dataset or an item that has an element there calls,
  in this order, \<open>beginRemoveRows(parent, 0, 0)\<close>, the removal, \<open>delete\<close> of the removed
  element, \<open>endRemoveRows()\<close>, and then marks the file.
\<close>

theorem structural_brackets:
  "bracketed None (drop (length (events m)) (events (snd (add_item append_item m idx))))
   \<and> bracketed None (drop (length (events m)) (events (snd (delete_index get_index_nr m idx))))
   \<and> (isValid idx \<and> row idx = 0 \<and> parent get_index_nr m idx = Inr parent_idx
        \<and> get_object m parent_idx = Some pp \<and> deref m pp = Some parent_obj
        \<and> is_DcmItem parent_obj \<and> children parent_obj \<noteq> []
      \<longrightarrow> events (snd (delete_index get_index_nr m idx))
          = events m @ [beginRemoveRows parent_idx 0 0, codec_remove pp 0, codec_delete (pp @ [0]),
                        endRemoveRows, dataset_changed])"
proof (intro conjI impI)
  show "bracketed None (drop (length (events m)) (events (snd (add_item append_item m idx))))"
    by (rule bracketed_add_item)
  show "bracketed None
      (drop (length (events m)) (events (snd (delete_index get_index_nr m idx))))"
    by (rule bracketed_delete_index)
  assume h: "isValid idx \<and> row idx = 0 \<and> parent get_index_nr m idx = Inr parent_idx
        \<and> get_object m parent_idx = Some pp \<and> deref m pp = Some parent_obj
        \<and> is_DcmItem parent_obj \<and> children parent_obj \<noteq> []"
  then have "events (snd (delete_index get_index_nr m idx))
       = events m @ [beginRemoveRows parent_idx (row idx) (row idx)]
          @ (if ident parent_obj = EVR_item \<or> ident parent_obj = EVR_dataset
                \<or> ident parent_obj = EVR_SQ
             then (if nat (row idx) < length (children parent_obj)
                   then [codec_remove pp (row idx), codec_delete (pp @ [nat (row idx)])]
                   else [codec_remove pp (row idx)])
             else [])
          @ [endRemoveRows, dataset_changed]"
    by (intro delete_index_run(3)) simp_all
  then show "events (snd (delete_index get_index_nr m idx))
          = events m @ [beginRemoveRows parent_idx 0 0, codec_remove pp 0, codec_delete (pp @ [0]),
                        endRemoveRows, dataset_changed]"
    using h by (auto simp: is_DcmItem_def)
qed

theorem structural_brackets_witness:
  "isValid (QModelIndex 0 0 (Some [0])) \<and> row (QModelIndex 0 0 (Some [0])) = 0
   \<and> parent last_position example_model (QModelIndex 0 0 (Some [0])) = Inr invalid_index
   \<and> get_object example_model invalid_index = Some []
   \<and> deref example_model []
       = Some (scenario_dataset [0x41, 0x20] [0x32, 0x30, 0x32, 0x34, 0x30, 0x31, 0x30, 0x31]
                 [0x42, 0x20])
   \<and> is_DcmItem (scenario_dataset [0x41, 0x20] [0x32, 0x30, 0x32, 0x34, 0x30, 0x31, 0x30, 0x31]
                 [0x42, 0x20])
   \<and> children (scenario_dataset [0x41, 0x20] [0x32, 0x30, 0x32, 0x34, 0x30, 0x31, 0x30, 0x31]
                 [0x42, 0x20]) \<noteq> []
   \<and> events (snd (delete_index last_position example_model (QModelIndex 0 0 (Some [0]))))
       = [beginRemoveRows invalid_index 0 0, codec_remove [] 0, codec_delete [0],
          endRemoveRows, dataset_changed]
   \<and> bracketed None
        (events (snd (delete_index last_position example_model (QModelIndex 0 0 (Some [0])))))
   \<and> bracketed None
        (events (snd (add_item DcmSequenceOfItems_append sequence_model sequence_address)))"
proof -
  let ?S = "scenario_dataset [0x41, 0x20] [0x32, 0x30, 0x32, 0x34, 0x30, 0x31, 0x30, 0x31]
              [0x42, 0x20]"
  let ?i = "QModelIndex 0 0 (Some [0])"
  have v: "isValid ?i" and r: "row ?i = 0"
    by (simp_all add: isValid_def)
  have p: "parent last_position example_model ?i = Inr invalid_index"
    by (simp add: parent_def v example_get_object example_deref getParent_def
        example_get_dataset)
  have g: "get_object example_model invalid_index = Some []"
    by (rule example_get_object)
  have d: "deref example_model [] = Some ?S"
    by (rule example_deref)
  have i: "is_DcmItem ?S" and c: "children ?S \<noteq> []"
    by (simp_all add: is_DcmItem_def scenario_dataset_def)
  note t1 = structural_brackets[of example_model DcmSequenceOfItems_append ?i last_position
      invalid_index "[]" ?S]
  note t2 = structural_brackets[of sequence_model DcmSequenceOfItems_append sequence_address
      last_position invalid_index "[]" ?S]
  have ev: "events (snd (delete_index last_position example_model ?i))
       = [beginRemoveRows invalid_index 0 0, codec_remove [] 0, codec_delete [0],
          endRemoveRows, dataset_changed]"
    using t1 v r p g d i c by (simp add: example_events)
  have b1: "bracketed None (events (snd (delete_index last_position example_model ?i)))"
    using t1 by (simp add: example_events)
  have b2: "bracketed None
        (events (snd (add_item DcmSequenceOfItems_append sequence_model sequence_address)))"
    using t2 by (simp add: example_events)
  show ?thesis
    using v r p g d i c ev b1 b2 by (intro conjI)
qed

text \<open>
  C10. At an address that resolves to a sequence, \<open>add_item\<close> sets the unsaved-changes
  flag and calls \<open>beginInsertRows\<close>, the append, \<open>endInsertRows\<close> and \<open>dataset_changed\<close>
  in this order, whatever status the append reports; when the status is bad its text is
  thrown, and the returned state has the flag and the calls all the same.
\<close>

theorem add_item_side_effects:
  assumes "get_object m idx = Some p" and "deref m p = Some sq" and "is_DcmSequenceOfItems sq"
    and "append_item sq new_DcmItem = (status, sq')"
  shows "map_option unsaved_changes (current_file (snd (add_item append_item m idx))) = Some True
    \<and> (\<exists>n. rowCount m idx = Inr n
          \<and> events (snd (add_item append_item m idx))
             = events m @ [beginInsertRows idx n n, codec_append p, endInsertRows,
                           dataset_changed])
    \<and> fst (add_item append_item m idx)
        = (if bad status then Inl (Runtime_error (text_of status)) else Inr ())"
proof -
  obtain n where n: "rowCount m idx = Inr n"
    using rowCount_live[OF assms(1,2)] by blast
  note run = add_item_run[of m idx p sq append_item status sq' n, OF assms n]
  show ?thesis
    using run n by (simp only: dirty_iff simp_thms) blast
qed

theorem add_item_side_effects_witness:
  "get_object sequence_model sequence_address = Some [0]
   \<and> deref sequence_model [0] = Some referenced_sequence
   \<and> is_DcmSequenceOfItems referenced_sequence
   \<and> refusing_append referenced_sequence new_DcmItem
       = (OFCondition False ''Illegal call'', referenced_sequence)
   \<and> bad (OFCondition False ''Illegal call'')
   \<and> fst (add_item refusing_append sequence_model sequence_address)
       = Inl (Runtime_error ''Illegal call'')
   \<and> map_option unsaved_changes
        (current_file (snd (add_item refusing_append sequence_model sequence_address)))
       = Some True
   \<and> events (snd (add_item refusing_append sequence_model sequence_address))
       = [beginInsertRows sequence_address 0 0, codec_append [0], endInsertRows, dataset_changed]"
proof -
  have a: "refusing_append referenced_sequence new_DcmItem
       = (OFCondition False ''Illegal call'', referenced_sequence)"
    by (simp add: refusing_append_def)
  have b: "bad (OFCondition False ''Illegal call'')"
    by (simp add: bad_def)
  note t = add_item_side_effects[where append_item = refusing_append,
      OF sequence_model_facts(1,2,3) a]
  have c: "fst (add_item refusing_append sequence_model sequence_address)
       = Inl (Runtime_error ''Illegal call'')"
    "map_option unsaved_changes
        (current_file (snd (add_item refusing_append sequence_model sequence_address)))
       = Some True"
    "events (snd (add_item refusing_append sequence_model sequence_address))
       = [beginInsertRows sequence_address 0 0, codec_append [0], endInsertRows, dataset_changed]"
    using t b by (simp_all add: sequence_model_rowCount example_events)
  show ?thesis
    using sequence_model_facts(1,2,3) a b c by (intro conjI)
qed

subsection \<open>Inserting an item and deleting it: C9\<close>

lemma subobject_update_at:
  "subobject ds p = Some ob \<Longrightarrow> subobject (update_at p f ds) p = Some (f ob)"
  by (induction p arbitrary: ds) (auto split: if_splits)

lemma update_at_restore:
  "subobject ds p = Some ob \<Longrightarrow> update_at p (\<lambda>_. ob) (update_at p f ds) = ds"
  by (induction p arbitrary: ds) (auto split: if_splits)

lemma subobject_append:
  "subobject ds p = Some ob \<Longrightarrow> subobject ds (p @ q) = subobject ob q"
  by (induction p arbitrary: ds) (auto split: if_splits)

lemma add_item_dataset:
  assumes "get_object m idx = Some p" and "deref m p = Some sq" and "is_DcmSequenceOfItems sq"
    and "append_item sq new_DcmItem = (status, sq')"
  shows "map_option dataset (current_file (snd (add_item append_item m idx)))
       = map_option (\<lambda>fl. update_at p (\<lambda>_. sq') (dataset fl)) (current_file m)"
proof -
  obtain fl where f: "current_file m = Some fl"
    using deref_current_file[OF assms(2)] by blast
  obtain n where n: "rowCount m idx = Inr n"
    using rowCount_live[OF assms(1,2)] by blast
  note sq = sequence_at_sequence[OF assms(1,2,3)]
  show ?thesis
    using assms(4) n f
    by (simp add: add_item_def sq Let_def mark_as_modified_def emit_def modify_object_def)
qed

lemma delete_index_dataset:
  assumes "isValid idx" and "parent gin m idx = Inr pidx" and "get_object m pidx = Some pp"
    and "deref m pp = Some pobj"
    and "ident pobj = EVR_item \<or> ident pobj = EVR_dataset \<or> ident pobj = EVR_SQ"
  shows "map_option dataset (current_file (snd (delete_index gin m idx)))
       = map_option (\<lambda>fl. update_at pp (\<lambda>_. snd (remove_child pobj (row idx))) (dataset fl))
           (current_file m)"
proof -
  obtain fl where f: "current_file m = Some fl"
    using deref_current_file[OF assms(4)] by blast
  show ?thesis
    using assms f
    by (auto simp: delete_index_def Let_def mark_as_modified_def emit_def modify_object_def
        remove_and_delete_def split: prod.splits option.splits)
qed

text \<open>The state after \<open>add_item\<close> with DCMTK's append: the new item is the last child.\<close>

lemma after_append:
  assumes "get_object m idx = Some p" and "deref m p = Some sq" and "ident sq = EVR_SQ"
  defines "m1 \<equiv> snd (add_item DcmSequenceOfItems_append m idx)"
  defines "sq' \<equiv> DcmObject (ident sq) (getTag sq) (getValue sq) (children sq @ [new_DcmItem])"
  shows "fst (add_item DcmSequenceOfItems_append m idx) = Inr ()"
    and "deref m1 p = Some sq'"
    and "deref m1 (p @ [length (children sq)]) = Some new_DcmItem"
    and "get_object m1 idx = Some p"
    and "\<exists>fl. current_file m = Some fl \<and>
          map_option dataset (current_file m1) = Some (update_at p (\<lambda>_. sq') (dataset fl))
          \<and> subobject (dataset fl) p = Some sq"
proof -
  obtain fl where f: "current_file m = Some fl"
    using deref_current_file[OF assms(2)] by blast
  have s: "is_DcmSequenceOfItems sq"
    using assms(3) by (simp add: is_DcmSequenceOfItems_def)
  have a: "DcmSequenceOfItems_append sq new_DcmItem = (OFCondition True ''Normal'', sq')"
    by (simp add: DcmSequenceOfItems_append_def sq'_def)
  obtain n where n: "rowCount m idx = Inr n"
    using rowCount_live[OF assms(1,2)] by blast
  show "fst (add_item DcmSequenceOfItems_append m idx) = Inr ()"
    using add_item_run(2)[of m idx p sq DcmSequenceOfItems_append _ sq' n] assms(1,2) s a n
    by (simp add: bad_def)
  have sub: "subobject (dataset fl) p = Some sq"
    using assms(2) f by (simp add: deref_def)
  have ds: "map_option dataset (current_file m1) = Some (update_at p (\<lambda>_. sq') (dataset fl))"
    unfolding m1_def
    using add_item_dataset[of m idx p sq DcmSequenceOfItems_append _ sq'] assms(1,2) s a f
    by simp
  then obtain fl1 where f1: "current_file m1 = Some fl1"
    and d1: "dataset fl1 = update_at p (\<lambda>_. sq') (dataset fl)"
    by (cases "current_file m1") auto
  show d: "deref m1 p = Some sq'"
    using subobject_update_at[OF sub, of "\<lambda>_. sq'"] by (simp add: deref_def f1 d1)
  have "subobject (dataset fl1) (p @ [length (children sq)])
      = subobject sq' [length (children sq)]"
    using d by (intro subobject_append) (simp add: deref_def f1)
  then show "deref m1 (p @ [length (children sq)]) = Some new_DcmItem"
    by (simp add: deref_def f1 sq'_def)
  show "get_object m1 idx = Some p"
    using assms(1) f f1 by (auto simp: get_object_def get_dataset_def split: if_splits)
  show "\<exists>fl. current_file m = Some fl \<and>
          map_option dataset (current_file m1) = Some (update_at p (\<lambda>_. sq') (dataset fl))
          \<and> subobject (dataset fl) p = Some sq"
    using f ds sub by blast
qed

text \<open>
  The parent of an address whose pointer is to child \<open>k\<close> of the object at \<open>p\<close> resolves
  to \<open>p\<close>, when the row that \<open>get_index_nr\<close> gives is not negative.
\<close>

lemma parent_of_child:
  assumes "deref m (p @ [k]) = Some child" and "0 \<le> r" and "0 \<le> c" and "0 \<le> gin m p"
  shows "\<exists>pidx. parent gin m (createIndex r c (Some (p @ [k]))) = Inr pidx
           \<and> get_object m pidx = Some p"
proof -
  obtain fl where f: "current_file m = Some fl"
    using deref_current_file[OF assms(1)] by blast
  show ?thesis
    using assms f
    by (auto simp: parent_def createIndex_def isValid_def get_object_def getParent_def
        get_dataset_def invalid_index_def)
qed

lemma remove_child_last:
  "snd (remove_child (DcmObject vr key v (cs @ [x])) (int (length cs))) = DcmObject vr key v cs"
  by (simp add: remove_child_def)

lemma remove_child_items:
  assumes "list_all is_DcmItem (children ob)"
  shows "list_all is_DcmItem (children (snd (remove_child ob r)))"
    and "ident (snd (remove_child ob r)) = ident ob"
    and "length (children (snd (remove_child ob r))) \<le> length (children ob)"
  using assms
  by (auto simp: remove_child_def list_all_iff dest: in_set_takeD in_set_dropD)

text \<open>Deleting at an address of the new item, at any row that is not negative.\<close>

lemma delete_new_item:
  assumes "get_object m idx = Some p" and "deref m p = Some sq" and "ident sq = EVR_SQ"
    and "0 \<le> c" and "\<forall>m' q. 0 \<le> gin m' q" and "0 \<le> r"
  defines "m1 \<equiv> snd (add_item DcmSequenceOfItems_append m idx)"
  defines "sq' \<equiv> DcmObject (ident sq) (getTag sq) (getValue sq) (children sq @ [new_DcmItem])"
  defines "m2 \<equiv> snd (delete_index gin m1 (createIndex r c (Some (p @ [length (children sq)]))))"
  shows "fst (delete_index gin m1 (createIndex r c (Some (p @ [length (children sq)])))) = Inr ()"
    and "\<exists>fl. current_file m = Some fl \<and> subobject (dataset fl) p = Some sq \<and>
          map_option dataset (current_file m2)
            = Some (update_at p (\<lambda>_. snd (remove_child sq' r))
                      (update_at p (\<lambda>_. sq') (dataset fl)))"
proof -
  note ap = after_append[OF assms(1,2,3), folded m1_def sq'_def]
  let ?d = "createIndex r c (Some (p @ [length (children sq)]))"
  have v: "isValid ?d"
    using assms(4,6) by (simp add: isValid_def createIndex_def)
  have rw: "row ?d = r"
    by (simp add: createIndex_def)
  obtain pidx where pi: "parent gin m1 ?d = Inr pidx" "get_object m1 pidx = Some p"
    using parent_of_child[OF ap(3) assms(6) assms(4), of gin] assms(5) by blast
  have id: "ident sq' = EVR_item \<or> ident sq' = EVR_dataset \<or> ident sq' = EVR_SQ"
    using assms(3) by (simp add: sq'_def)
  show "fst (delete_index gin m1 ?d) = Inr ()"
    using delete_index_run(2)[OF v pi ap(2)] id by simp
  obtain fl where f: "current_file m = Some fl"
    and ds: "map_option dataset (current_file m1) = Some (update_at p (\<lambda>_. sq') (dataset fl))"
    and sub: "subobject (dataset fl) p = Some sq"
    using ap(5) by blast
  have "map_option dataset (current_file m2)
      = map_option (\<lambda>fl. update_at p (\<lambda>_. snd (remove_child sq' r)) (dataset fl))
          (current_file m1)"
    unfolding m2_def using delete_index_dataset[OF v pi ap(2) id] by (simp only: rw)
  also have "\<dots> = Some (update_at p (\<lambda>_. snd (remove_child sq' r))
                       (update_at p (\<lambda>_. sq') (dataset fl)))"
    using ds by (cases "current_file m1") auto
  finally show "\<exists>fl. current_file m = Some fl \<and> subobject (dataset fl) p = Some sq \<and>
          map_option dataset (current_file m2)
            = Some (update_at p (\<lambda>_. snd (remove_child sq' r))
                      (update_at p (\<lambda>_. sq') (dataset fl)))"
    using f sub by blast
qed

text \<open>
  C9. At an address that resolves to a sequence, \<open>add_item\<close> (with DCMTK's append) and
  then \<open>delete_index\<close> at the address of the new item, the pointer to it with the row of
  its position in the sequence and any column, both succeed, give back the dataset as
  it was, and with it the \<open>rowCount\<close> of the sequence address. When the sequence holds
  items only, the \<open>rowCount\<close> of the sequence address is also back at its value for
  every other row that the address of the new item may carry, the row 0 announced by
  \<open>beginInsertRows\<close> among them. \<open>get_index_nr\<close> is any function that returns no
  negative row.
\<close>

theorem add_item_then_delete_index:
  assumes "get_object m idx = Some p" and "deref m p = Some sq" and "ident sq = EVR_SQ"
    and "0 \<le> c" and "\<forall>m' q. 0 \<le> get_index_nr m' q"
  shows "fst (add_item DcmSequenceOfItems_append m idx) = Inr ()
    \<and> deref (snd (add_item DcmSequenceOfItems_append m idx)) (p @ [length (children sq)])
        = Some new_DcmItem
    \<and> fst (delete_index get_index_nr (snd (add_item DcmSequenceOfItems_append m idx))
            (createIndex (int (length (children sq))) c (Some (p @ [length (children sq)]))))
        = Inr ()
    \<and> map_option dataset (current_file
          (snd (delete_index get_index_nr (snd (add_item DcmSequenceOfItems_append m idx))
            (createIndex (int (length (children sq))) c (Some (p @ [length (children sq)]))))))
        = map_option dataset (current_file m)
    \<and> rowCount
          (snd (delete_index get_index_nr (snd (add_item DcmSequenceOfItems_append m idx))
            (createIndex (int (length (children sq))) c (Some (p @ [length (children sq)])))))
          idx
        = rowCount m idx
    \<and> (\<forall>r. 0 \<le> r \<and> list_all is_DcmItem (children sq) \<and> length (children sq) + 1 < 2 ^ 31
          \<longrightarrow> rowCount
                (snd (delete_index get_index_nr (snd (add_item DcmSequenceOfItems_append m idx))
                  (createIndex r c (Some (p @ [length (children sq)])))))
                idx
              = rowCount m idx)"
proof -
  let ?m1 = "snd (add_item DcmSequenceOfItems_append m idx)"
  let ?M = "length (children sq)"
  let ?sq' = "DcmObject (ident sq) (getTag sq) (getValue sq) (children sq @ [new_DcmItem])"
  note ap = after_append[OF assms(1,2,3)]
  have M0: "0 \<le> int ?M" by simp
  note dl = delete_new_item[OF assms(1,2,3,4,5)]
  obtain fl where f: "current_file m = Some fl" and sub: "subobject (dataset fl) p = Some sq"
    and ds: "map_option dataset (current_file
          (snd (delete_index get_index_nr ?m1 (createIndex (int ?M) c (Some (p @ [?M]))))))
        = Some (update_at p (\<lambda>_. snd (remove_child ?sq' (int ?M)))
                 (update_at p (\<lambda>_. ?sq') (dataset fl)))"
    using dl(2)[OF M0] by blast
  have "snd (remove_child ?sq' (int ?M)) = sq"
    by (simp add: remove_child_last)
  then have restored: "map_option dataset (current_file
          (snd (delete_index get_index_nr ?m1 (createIndex (int ?M) c (Some (p @ [?M]))))))
        = map_option dataset (current_file m)"
    using ds f update_at_restore[OF sub] by simp
  have general:
    "rowCount (snd (delete_index get_index_nr ?m1 (createIndex r c (Some (p @ [?M]))))) idx
      = rowCount m idx"
    if r: "0 \<le> r" and items: "list_all is_DcmItem (children sq)" and small: "?M + 1 < 2 ^ 31"
    for r
  proof -
    let ?m2 = "snd (delete_index get_index_nr ?m1 (createIndex r c (Some (p @ [?M]))))"
    let ?sq2 = "snd (remove_child ?sq' r)"
    obtain fl0 where f0: "current_file m = Some fl0"
      and sub0: "subobject (dataset fl0) p = Some sq"
      and ds2: "map_option dataset (current_file ?m2)
          = Some (update_at p (\<lambda>_. ?sq2) (update_at p (\<lambda>_. ?sq') (dataset fl0)))"
      using dl(2)[OF r] by blast
    obtain fl2 where f2: "current_file ?m2 = Some fl2"
      and d2: "dataset fl2 = update_at p (\<lambda>_. ?sq2) (update_at p (\<lambda>_. ?sq') (dataset fl0))"
      using ds2 by (cases "current_file ?m2") auto
    have "subobject (update_at p (\<lambda>_. ?sq') (dataset fl0)) p = Some ?sq'"
      using subobject_update_at[OF sub0] by simp
    then have "subobject (dataset fl2) p = Some ?sq2"
      unfolding d2 using subobject_update_at by simp
    then have de2: "deref ?m2 p = Some ?sq2"
      by (simp add: deref_def f2)
    have g2: "get_object ?m2 idx = Some p"
      using get_object_same_file[OF f0 f2] assms(1) by simp
    have items': "list_all is_DcmItem (children ?sq')"
      using items by (simp add: new_DcmItem_def is_DcmItem_def)
    have "rowCount ?m2 idx = Inr 0"
      using remove_child_items[OF items', of r] assms(3) small
      by (intro rowCount_sequence_of_items[OF g2 de2]) auto
    moreover have "rowCount m idx = Inr 0"
      using items small by (intro rowCount_sequence_of_items[OF assms(1,2,3)]) auto
    ultimately show ?thesis by simp
  qed
  show ?thesis
    using ap(1) ap(3) dl(1)[OF M0] restored rowCount_dataset_cong[OF restored] general
    by (intro conjI allI impI) auto
qed

theorem add_item_then_delete_index_witness:
  "get_object sequence_model sequence_address = Some [0]
   \<and> deref sequence_model [0] = Some referenced_sequence
   \<and> ident referenced_sequence = EVR_SQ
   \<and> (0::int) \<le> 0
   \<and> (\<forall>m' q. 0 \<le> last_position m' q)
   \<and> list_all is_DcmItem (children referenced_sequence)
   \<and> length (children referenced_sequence) = 1
   \<and> deref (snd (add_item DcmSequenceOfItems_append sequence_model sequence_address)) [0, 1]
       = Some new_DcmItem
   \<and> rowCount
        (snd (delete_index last_position
               (snd (add_item DcmSequenceOfItems_append sequence_model sequence_address))
               (createIndex 1 0 (Some [0, 1]))))
        sequence_address
       = rowCount sequence_model sequence_address
   \<and> map_option dataset (current_file
        (snd (delete_index last_position
               (snd (add_item DcmSequenceOfItems_append sequence_model sequence_address))
               (createIndex 1 0 (Some [0, 1])))))
       = map_option dataset (current_file sequence_model)
   \<and> rowCount
        (snd (delete_index last_position
               (snd (add_item DcmSequenceOfItems_append sequence_model sequence_address))
               (createIndex 0 0 (Some [0, 1]))))
        sequence_address
       = rowCount sequence_model sequence_address"
proof -
  have z: "(0::int) \<le> 0"
    by simp
  have lp: "\<forall>m' q. 0 \<le> last_position m' q"
    by (simp add: last_position_def)
  have it: "list_all is_DcmItem (children referenced_sequence)"
    by (simp add: referenced_sequence_def new_DcmItem_def is_DcmItem_def)
  have ln: "length (children referenced_sequence) = 1"
    by (simp add: referenced_sequence_def)
  note t = add_item_then_delete_index[OF sequence_model_facts(1,2,4) z lp, unfolded ln]
  have c: "deref (snd (add_item DcmSequenceOfItems_append sequence_model sequence_address)) [0, 1]
       = Some new_DcmItem"
    "rowCount
        (snd (delete_index last_position
               (snd (add_item DcmSequenceOfItems_append sequence_model sequence_address))
               (createIndex 1 0 (Some [0, 1]))))
        sequence_address
       = rowCount sequence_model sequence_address"
    "map_option dataset (current_file
        (snd (delete_index last_position
               (snd (add_item DcmSequenceOfItems_append sequence_model sequence_address))
               (createIndex 1 0 (Some [0, 1])))))
       = map_option dataset (current_file sequence_model)"
    using t by simp_all
  have "\<forall>r. 0 \<le> r \<and> list_all is_DcmItem (children referenced_sequence)
            \<and> (1::nat) + 1 < 2 ^ 31
          \<longrightarrow> rowCount
                (snd (delete_index last_position
                   (snd (add_item DcmSequenceOfItems_append sequence_model sequence_address))
                  (createIndex r 0 (Some ([0] @ [1])))))
                sequence_address
              = rowCount sequence_model sequence_address"
    using t by blast
  then have d: "rowCount
        (snd (delete_index last_position
               (snd (add_item DcmSequenceOfItems_append sequence_model sequence_address))
               (createIndex 0 0 (Some [0, 1]))))
        sequence_address
       = rowCount sequence_model sequence_address"
    using it by simp
  show ?thesis
    using sequence_model_facts(1,2,4) z lp it ln c d by (intro conjI)
qed

subsection \<open>The row of an address and the position of its object\<close>

text \<open>
  \<open>delete_index\<close> passes the row of the address to \<open>remove\<close> as a position in the list of
  the parent. In the scenario the address of row 1 points to the leaf (0010,0020), the
  third child; deleting at this address removes the second child, the leaf (0008,0020),
  and the leaf (0010,0020) stays.
\<close>

lemma delete_index_removes_by_row:
  "index example_model 1 0 invalid_index = Inr (QModelIndex 1 0 (Some [2]))
   \<and> deref example_model [2] = Some (DcmObject EVR_LO (0x0010, 0x0020) [0x42, 0x20] [])
   \<and> fst (delete_index last_position example_model (QModelIndex 1 0 (Some [2]))) = Inr ()
   \<and> map_option dataset
        (current_file (snd (delete_index last_position example_model (QModelIndex 1 0 (Some [2])))))
       = Some (DcmObject EVR_dataset (0xFFFE, 0xE000) []
                 [DcmObject EVR_PN (0x0010, 0x0010) [0x41, 0x20] [],
                  DcmObject EVR_LO (0x0010, 0x0020) [0x42, 0x20] []])"
proof -
  let ?S = "scenario_dataset [0x41, 0x20] [0x32, 0x30, 0x32, 0x34, 0x30, 0x31, 0x30, 0x31]
              [0x42, 0x20]"
  let ?i = "QModelIndex 1 0 (Some [2])"
  have rc: "rowCount example_model invalid_index = Inr 2"
    unfolding example_model_def by (rule scenario_rowCount)
  have n: "to_int (getNumberOfValues ?S) = 3"
    by (simp add: getNumberOfValues_def scenario_dataset_def to_int_small)
  have i1: "index example_model 1 0 invalid_index = Inr (QModelIndex 1 0 (Some [2]))"
    by (simp add: index_def hasIndex_def rc columnCount_def example_get_object example_deref n
        scenario_index_1 createIndex_def)
  have v: "isValid ?i"
    by (simp add: isValid_def)
  have p: "parent last_position example_model ?i = Inr invalid_index"
    by (simp add: parent_def v example_get_object example_deref getParent_def
        example_get_dataset)
  have g: "get_object example_model invalid_index = Some []"
    by (rule example_get_object)
  have d: "deref example_model [] = Some ?S"
    by (rule example_deref)
  have id: "ident ?S = EVR_item \<or> ident ?S = EVR_dataset \<or> ident ?S = EVR_SQ"
    by (simp add: scenario_dataset_def)
  have f: "fst (delete_index last_position example_model ?i) = Inr ()"
    using delete_index_run(2)[OF v p g d] id by simp
  have "map_option dataset (current_file (snd (delete_index last_position example_model ?i)))
      = map_option (\<lambda>fl. update_at [] (\<lambda>_. snd (remove_child ?S (row ?i))) (dataset fl))
          (current_file example_model)"
    by (rule delete_index_dataset[OF v p g d id])
  then have ds: "map_option dataset
        (current_file (snd (delete_index last_position example_model ?i)))
       = Some (DcmObject EVR_dataset (0xFFFE, 0xE000) []
                 [DcmObject EVR_PN (0x0010, 0x0010) [0x41, 0x20] [],
                  DcmObject EVR_LO (0x0010, 0x0020) [0x42, 0x20] []])"
    by (simp add: example_model_def scenario_model_def scenario_dataset_def remove_child_def)
  show ?thesis
    using i1 example_deref(4) f ds by (intro conjI)
qed

end
